theory Spec2Isabelle
  imports Complex_Main
begin

section \<open>Scope of the model\<close>

text \<open>
  The development embeds the two spatial pipelines of the map application:
  \<^item> \<open>computePriorityZones\<close> with its helpers \<open>distanceMeters\<close> and \<open>nearWaterway\<close>
    (PriorityZonesLayer), and the second great-circle routine \<open>haversineDistance\<close>
    (WorkQueue);
  \<^item> the \<open>nearestWaterwayMap\<close> memo of MaintenanceLayer.

  JavaScript numbers are modelled as real numbers, with these exceptions, where a
  result of the code depends on what a double is:
  \<^item> the quotient and the product of the grid computation are rounded to double
    precision (\<open>double\<close>), because \<open>Math.round\<close> is applied to the rounded quotient;
  \<^item> a raw score can be NaN (\<open>None\<close> of \<open>real option\<close>), because the severity table
    is a plain object and a severity string can name an inherited member;
  \<^item> the distances of the nearest-waterway memo can be NaN or Infinity
    (\<open>number\<close>), because the code compares them with the running minimum.

  A GeoJSON position \<open>[lng, lat]\<close> is a pair \<open>(lng, lat)\<close> of reals for the code that
  reads its two numbers (\<open>computePriorityZones\<close> and \<open>nearWaterway\<close>). The memo never
  reads a position, it hands positions to the turf library: it is modelled for every type
  of positions, so that positions the library cannot use are inputs of the model. A
  feature carries an optional geometry (GeoJSON allows \<open>null\<close>, and the code guards
  against it in two of its three loops) and the properties the code reads, each optional.
  A grid size of 0 makes every cell centre NaN in the code, which the model does not
  represent: results that depend on the cell centres are stated for a grid size other
  than 0.
\<close>

section \<open>GeoJSON features\<close>

type_synonym position = "real \<times> real"

datatype 'p geometry =
    Point 'p
  | LineString "'p list"
  | MultiLineString "'p list list"
  | OtherGeometry

record 'p feature =
  geometry :: "'p geometry option"
  prop_id :: "string option"
  prop_name :: "string option"
  prop_severity :: "string option"
  prop_category :: "string option"
  prop_status :: "string option"

text \<open>\<open>(p as string) || d\<close>: a missing or empty property takes the default.\<close>

definition orElse :: "string option \<Rightarrow> string \<Rightarrow> string" where
  "orElse p d = (case p of None \<Rightarrow> d | Some s \<Rightarrow> if s = [] then d else s)"

section \<open>Great-circle distance\<close>

text \<open>\<open>Math.atan2(y, x)\<close>, the angle of the point \<open>(x, y)\<close> in \<open>(-\<pi>, \<pi>]\<close>.\<close>

definition atan2 :: "real \<Rightarrow> real \<Rightarrow> real" where
  "atan2 y x =
     (if 0 < x then arctan (y / x)
      else if x < 0 then (if 0 \<le> y then arctan (y / x) + pi else arctan (y / x) - pi)
      else if 0 < y then pi / 2
      else if y < 0 then - (pi / 2)
      else 0)"

text \<open>The haversine term \<open>a\<close> that both distance routines compute in the same way.\<close>

definition haversineA :: "real \<Rightarrow> real \<Rightarrow> real \<Rightarrow> real \<Rightarrow> real" where
  "haversineA lat1 lng1 lat2 lng2 =
     (let dLat = ((lat2 - lat1) * pi) / 180;
          dLng = ((lng2 - lng1) * pi) / 180
      in (sin (dLat / 2))\<^sup>2 +
         cos ((lat1 * pi) / 180) * cos ((lat2 * pi) / 180) * (sin (dLng / 2))\<^sup>2)"

text \<open>PriorityZonesLayer: haversine distance in meters, \<open>R = 6371000\<close>.\<close>

definition distanceMeters :: "real \<Rightarrow> real \<Rightarrow> real \<Rightarrow> real \<Rightarrow> real" where
  "distanceMeters lat1 lng1 lat2 lng2 =
     (let R = 6371000;
          a = haversineA lat1 lng1 lat2 lng2
      in R * 2 * atan2 (sqrt a) (sqrt (1 - a)))"

text \<open>WorkQueue: haversine distance in miles, \<open>R = 3958.8\<close>.\<close>

definition haversineDistance :: "real \<Rightarrow> real \<Rightarrow> real \<Rightarrow> real \<Rightarrow> real" where
  "haversineDistance lat1 lon1 lat2 lon2 =
     (let R = 3958.8;
          a = haversineA lat1 lon1 lat2 lon2
      in R * 2 * atan2 (sqrt a) (sqrt (1 - a)))"

section \<open>Waterway proximity of a cell centre\<close>

datatype error = TypeError

text \<open>The inner loops of \<open>nearWaterway\<close>: over the coordinates of one line, and over the
  lines of a MultiLineString. Only the listed vertices are measured.\<close>

fun coordsNear :: "real \<Rightarrow> real \<Rightarrow> real \<Rightarrow> position list \<Rightarrow> bool" where
  "coordsNear lat lng meters [] = False"
| "coordsNear lat lng meters (coord # coords) =
     (if distanceMeters lat lng (snd coord) (fst coord) < meters then True
      else coordsNear lat lng meters coords)"

fun linesNear :: "real \<Rightarrow> real \<Rightarrow> real \<Rightarrow> position list list \<Rightarrow> bool" where
  "linesNear lat lng meters [] = False"
| "linesNear lat lng meters (line # lines) =
     (if coordsNear lat lng meters line then True else linesNear lat lng meters lines)"

text \<open>\<open>feat.geometry.type\<close> is read without a guard: a feature without geometry raises a
  TypeError, unless an earlier feature has already returned \<open>true\<close>.\<close>

fun nearWaterway :: "real \<Rightarrow> real \<Rightarrow> position feature list \<Rightarrow> real \<Rightarrow> error + bool" where
  "nearWaterway lat lng [] meters = Inr False"
| "nearWaterway lat lng (feat # feats) meters =
     (case geometry feat of
        None \<Rightarrow> Inl TypeError
      | Some (LineString coords) \<Rightarrow>
          if coordsNear lat lng meters coords then Inr True
          else nearWaterway lat lng feats meters
      | Some (MultiLineString lines) \<Rightarrow>
          if linesNear lat lng meters lines then Inr True
          else nearWaterway lat lng feats meters
      | Some _ \<Rightarrow> nearWaterway lat lng feats meters)"

section \<open>Double precision\<close>

text \<open>
  A division or multiplication of two doubles gives the exact result rounded to the
  nearest double, ties to even (IEEE 754 binary64). \<open>double x\<close> is that rounding of a
  real \<open>x\<close>: with \<open>2^e \<le> |x| < 2^(e+1)\<close>, the multiple of \<open>2^(e-52)\<close> nearest to
  \<open>x\<close>. The exponent range is not bounded here: overflow to Infinity (beyond
  \<open>1.8 * 10^308\<close>) and subnormal numbers (below \<open>2.3 * 10^-308\<close>) are not
  represented. For a number whose exponent \<open>e\<close> is known, \<open>double_binade\<close> below
  gives the value.
\<close>

definition roundTiesToEven :: "real \<Rightarrow> int" where
  "roundTiesToEven y =
     (let f = \<lfloor>y\<rfloor>
      in if y - of_int f < 1 / 2 then f
         else if 1 / 2 < y - of_int f then f + 1
         else if even f then f else f + 1)"

definition double :: "real \<Rightarrow> real" where
  "double x =
     (if x = 0 then 0
      else let ulp = 2 powr (of_int \<lfloor>log 2 \<bar>x\<bar>\<rfloor> - 52)
           in of_int (roundTiesToEven (x / ulp)) * ulp)"

section \<open>Priority zones\<close>

record PriorityWeights =
  issueDensity :: real
  waterProximity :: real
  severityFactor :: real
  recurrence :: real

definition DEFAULT_PRIORITY_WEIGHTS :: PriorityWeights where
  "DEFAULT_PRIORITY_WEIGHTS =
     \<lparr>issueDensity = 35 / 100, waterProximity = 25 / 100,
      severityFactor = 25 / 100, recurrence = 15 / 100\<rparr>"

text \<open>The score of a zone is a number that can be NaN while the zones are scored and
  normalised (\<open>real option\<close>, \<open>None\<close> for NaN), and a real in the returned list, which
  holds the zones whose score is a number above 0.1.\<close>

record 's PriorityZone =
  zone_lat :: real
  zone_lng :: real
  score :: 's
  issueCount :: nat
  criticalCount :: nat
  nearWater :: bool
  categories :: "string list"
  label :: string

subsection \<open>Numbers that can be NaN\<close>

text \<open>\<open>a + b\<close>, \<open>Math.max(a, b)\<close> and \<open>a > b\<close>. In the \<open>reduce\<close> of the severities an
  operand that is not a number turns the sum into a string, which the division by the
  length turns into NaN: \<open>None\<close> stands for that string too.\<close>

definition addNumber :: "real option \<Rightarrow> real option \<Rightarrow> real option" where
  "addNumber a b = (case (a, b) of (Some x, Some y) \<Rightarrow> Some (x + y) | _ \<Rightarrow> None)"

definition mathMax :: "real option \<Rightarrow> real option \<Rightarrow> real option" where
  "mathMax a b = (case (a, b) of (Some x, Some y) \<Rightarrow> Some (max x y) | _ \<Rightarrow> None)"

definition greater :: "real option \<Rightarrow> real \<Rightarrow> bool" where
  "greater a b = (case a of Some x \<Rightarrow> b < x | None \<Rightarrow> False)"

text \<open>\<open>a / b\<close>. A divisor 0 gives NaN or an infinity, for which \<open>None\<close> stands as well;
  the two divisions of the normaliser never have the divisor 0, the first by its guard
  \<open>maxRawScore > 0\<close>, the second by \<open>maxRawScore || 1\<close>.\<close>

definition quotient :: "real option \<Rightarrow> real option \<Rightarrow> real option" where
  "quotient a b =
     (case (a, b) of (Some x, Some y) \<Rightarrow> if y = 0 then None else Some (x / y) | _ \<Rightarrow> None)"

subsection \<open>The severity table\<close>

text \<open>\<open>SEVERITY_SCORES\<close> is a plain object: a key that is not one of its own four finds
  the member of that name that every object inherits from \<open>Object.prototype\<close>, when
  there is one. Such a member is a function (for \<open>__proto__\<close> the prototype object).\<close>

datatype property = Undefined | Number real | Inherited

definition objectPrototypeKeys :: "string list" where
  "objectPrototypeKeys =
     [''constructor'', ''hasOwnProperty'', ''isPrototypeOf'', ''propertyIsEnumerable'',
      ''toLocaleString'', ''toString'', ''valueOf'', ''__proto__'', ''__defineGetter__'',
      ''__defineSetter__'', ''__lookupGetter__'', ''__lookupSetter__'']"

definition SEVERITY_SCORES :: "string \<Rightarrow> property" where
  "SEVERITY_SCORES key =
     (case map_of [(''critical'', 1), (''high'', 75 / 100), (''medium'', 4 / 10),
                   (''low'', 15 / 100 :: real)] key of
        Some v \<Rightarrow> Number v
      | None \<Rightarrow> if key \<in> set objectPrototypeKeys then Inherited else Undefined)"

text \<open>\<open>SEVERITY_SCORES[i.severity] || 0.4\<close>: \<open>undefined\<close> (and 0) give 0.4; an inherited
  member is truthy, so it is the value, and it is not a number.\<close>

definition severityScore :: "string \<Rightarrow> real option" where
  "severityScore s =
     (case SEVERITY_SCORES s of
        Undefined \<Rightarrow> Some (4 / 10)
      | Number v \<Rightarrow> if v = 0 then Some (4 / 10) else Some v
      | Inherited \<Rightarrow> None)"

subsection \<open>Issue points\<close>

record issue =
  issue_lat :: real
  issue_lng :: real
  severity :: string
  category :: string
  status :: string

text \<open>The issue points: the features with Point geometry, with the property defaults.\<close>

fun extractIssues :: "position feature list \<Rightarrow> issue list" where
  "extractIssues [] = []"
| "extractIssues (f # fs) =
     (case geometry f of
        Some (Point c) \<Rightarrow>
          \<lparr>issue_lat = snd c, issue_lng = fst c,
           severity = orElse (prop_severity f) ''medium'',
           category = orElse (prop_category f) ''unknown'',
           status = orElse (prop_status f) ''reported''\<rparr> # extractIssues fs
      | _ \<Rightarrow> extractIssues fs)"

subsection \<open>Grid aggregation\<close>

text \<open>\<open>Number.prototype.toFixed(5)\<close> for \<open>|x| < 10^21\<close>: the sign, then the
  integer \<open>n\<close> nearest to \<open>|x| * 10^5\<close> (the larger one on a tie), printed with five
  decimal places.\<close>

definition digitChar :: "nat \<Rightarrow> char" where
  "digitChar d = ''0123456789'' ! d"

function digits :: "nat \<Rightarrow> string" where
  "digits n = (if n < 10 then [digitChar n] else digits (n div 10) @ [digitChar (n mod 10)])"
  by pat_completeness auto
termination
  by (relation "measure id") auto

definition toFixed5 :: "real \<Rightarrow> string" where
  "toFixed5 x =
     (let n = nat \<lfloor>\<bar>x\<bar> * 100000 + 1 / 2\<rfloor>;
          m = n mod 100000
      in (if x < 0 then ''-'' else []) @ digits (n div 100000) @ ''.'' @
         [digitChar (m div 10000), digitChar (m div 1000 mod 10), digitChar (m div 100 mod 10),
          digitChar (m div 10 mod 10), digitChar (m mod 10)])"

record cell =
  cell_lat :: real
  cell_lng :: real
  cell_issues :: "issue list"

text \<open>\<open>Math.round(x / gridDeg) * gridDeg\<close>: the quotient is a double, \<open>Math.round\<close> of it
  is exact and rounds a tie upwards, as \<open>round\<close> does, and the product is a double
  again. The key of a cell is the template string
  \<open>`${cellLat.toFixed(5)},${cellLng.toFixed(5)}`\<close>.\<close>

definition cellCentre :: "real \<Rightarrow> real \<Rightarrow> real" where
  "cellCentre gridDeg x = double (real_of_int (round (double (x / gridDeg))) * gridDeg)"

definition cellKey :: "real \<Rightarrow> issue \<Rightarrow> string" where
  "cellKey gridDeg i =
     toFixed5 (cellCentre gridDeg (issue_lat i)) @ '','' @ toFixed5 (cellCentre gridDeg (issue_lng i))"

text \<open>The \<open>Map\<close> from key to cell, in insertion order. \<open>pushIssue\<close> is
  \<open>cellMap.get(key)!.issues.push(issue)\<close>.\<close>

fun pushIssue :: "string \<Rightarrow> issue \<Rightarrow> (string \<times> cell) list \<Rightarrow> (string \<times> cell) list" where
  "pushIssue key i [] = []"
| "pushIssue key i ((k, c) # m) =
     (if k = key then (k, c\<lparr>cell_issues := cell_issues c @ [i]\<rparr>) # m
      else (k, c) # pushIssue key i m)"

text \<open>The body of \<open>for (const issue of issues)\<close>: a new key gets a cell with the centre
  computed from this issue and no issues yet, then the issue is pushed to the cell of its
  key.\<close>

definition addIssue :: "real \<Rightarrow> (string \<times> cell) list \<Rightarrow> issue \<Rightarrow> (string \<times> cell) list" where
  "addIssue gridDeg cellMap i =
     (let cellLat = cellCentre gridDeg (issue_lat i);
          cellLng = cellCentre gridDeg (issue_lng i);
          key = cellKey gridDeg i;
          cellMap' = (if key \<notin> set (map fst cellMap)
                      then cellMap @ [(key, \<lparr>cell_lat = cellLat, cell_lng = cellLng, cell_issues = []\<rparr>)]
                      else cellMap)
      in pushIssue key i cellMap')"

text \<open>\<open>gridDeg = gridSizeMeters / 111320\<close>, a double.\<close>

definition gridDegOf :: "real \<Rightarrow> real" where
  "gridDegOf gridSizeMeters = double (gridSizeMeters / 111320)"

definition buildCellMap :: "real \<Rightarrow> issue list \<Rightarrow> (string \<times> cell) list" where
  "buildCellMap gridSizeMeters issues = foldl (addIssue (gridDegOf gridSizeMeters)) [] issues"

subsection \<open>Scoring one cell\<close>

text \<open>The four sub-scores computed in the body of the scoring loop, their weighted sum, and
  the zone that is pushed for the cell (with the raw score and an empty label). The
  average severity is NaN when a severity of the cell is not a number, and so is the
  weighted sum then, whatever the weights.\<close>

definition densityScore :: "cell \<Rightarrow> real" where
  "densityScore c = min (real (length (cell_issues c)) / 8) 1"

definition waterScore :: "bool \<Rightarrow> real" where
  "waterScore isNearWater = (if isNearWater then 1 else 0)"

definition avgSeverity :: "cell \<Rightarrow> real option" where
  "avgSeverity c =
     quotient
       (foldl (\<lambda>sum i. addNumber sum (severityScore (severity i))) (Some 0) (cell_issues c))
       (Some (real (length (cell_issues c))))"

text \<open>\<open>new Set(...)\<close> keeps the first occurrence of each category, in order.\<close>

definition uniqueCategories :: "cell \<Rightarrow> string list" where
  "uniqueCategories c =
     foldl (\<lambda>s x. if x \<in> set s then s else s @ [x]) [] (map category (cell_issues c))"

definition recurrenceScore :: "cell \<Rightarrow> real" where
  "recurrenceScore c = min (real (length (uniqueCategories c)) / 4) 1"

definition rawScore :: "PriorityWeights \<Rightarrow> bool \<Rightarrow> cell \<Rightarrow> real option" where
  "rawScore weights isNearWater c =
     (case avgSeverity c of
        None \<Rightarrow> None
      | Some a \<Rightarrow>
          Some (densityScore c * issueDensity weights +
                waterScore isNearWater * waterProximity weights +
                a * severityFactor weights +
                recurrenceScore c * recurrence weights))"

definition rawZone :: "PriorityWeights \<Rightarrow> bool \<Rightarrow> cell \<Rightarrow> real option PriorityZone" where
  "rawZone weights isNearWater c =
     \<lparr>zone_lat = cell_lat c, zone_lng = cell_lng c,
      score = rawScore weights isNearWater c,
      issueCount = length (cell_issues c),
      criticalCount =
        length (filter (\<lambda>i. severity i = ''critical'' \<or> severity i = ''high'') (cell_issues c)),
      nearWater = isNearWater,
      categories = uniqueCategories c,
      label = []\<rparr>"

text \<open>The scoring loop over the cells, carrying \<open>zones\<close> and \<open>maxRawScore\<close>.\<close>

fun scoreLoop ::
  "position feature list \<Rightarrow> PriorityWeights \<Rightarrow> cell list \<Rightarrow>
   real option PriorityZone list \<times> real option \<Rightarrow>
   error + (real option PriorityZone list \<times> real option)" where
  "scoreLoop waterwayData weights [] st = Inr st"
| "scoreLoop waterwayData weights (c # cs) (zones, maxRawScore) =
     (if cell_issues c = [] then scoreLoop waterwayData weights cs (zones, maxRawScore)
      else case nearWaterway (cell_lat c) (cell_lng c) waterwayData 150 of
             Inl e \<Rightarrow> Inl e
           | Inr isNearWater \<Rightarrow>
               scoreLoop waterwayData weights cs
                 (zones @ [rawZone weights isNearWater c],
                  mathMax maxRawScore (rawScore weights isNearWater c)))"

subsection \<open>Normalisation, labels, filter and sort\<close>

text \<open>\<open>.map((z) => ({ ...z, score: ..., label: ... }))\<close>: the score is
  \<open>maxRawScore > 0 ? z.score / maxRawScore : 0\<close>, and the label is chosen from the raw
  score \<open>z.score\<close> divided by \<open>maxRawScore || 1\<close>.\<close>

definition labelOf :: "real option \<Rightarrow> real option \<Rightarrow> string" where
  "labelOf s maxRawScore =
     (let d = (case maxRawScore of None \<Rightarrow> 1 | Some m \<Rightarrow> if m = 0 then 1 else m);
          r = quotient s (Some d)
      in if greater r (7 / 10) then ''Critical Priority''
         else if greater r (4 / 10) then ''High Priority''
         else if greater r (2 / 10) then ''Moderate Priority''
         else ''Low Priority'')"

definition normalizeZone :: "real option \<Rightarrow> real option PriorityZone \<Rightarrow> real option PriorityZone" where
  "normalizeZone maxRawScore z =
     z\<lparr>score := (if greater maxRawScore 0 then quotient (score z) maxRawScore else Some 0),
       label := labelOf (score z) maxRawScore\<rparr>"

text \<open>\<open>.filter((z) => z.score > 0.1)\<close>: a zone is kept when its score is a number
  above 0.1 (the comparison is false for NaN); the zones that are kept are returned with
  that number as their score.\<close>

definition visibleZone :: "real option PriorityZone \<Rightarrow> real PriorityZone option" where
  "visibleZone z =
     (case score z of
        None \<Rightarrow> None
      | Some s \<Rightarrow>
          if s > 1 / 10
          then Some \<lparr>zone_lat = zone_lat z, zone_lng = zone_lng z, score = s,
                      issueCount = issueCount z, criticalCount = criticalCount z,
                      nearWater = nearWater z, categories = categories z, label = label z\<rparr>
          else None)"

text \<open>\<open>.sort((a, b) => b.score - a.score)\<close>: a stable sort, descending by score.\<close>

definition finishZones :: "real option PriorityZone list \<times> real option \<Rightarrow> real PriorityZone list" where
  "finishZones st =
     (case st of (zones, maxRawScore) \<Rightarrow>
        sort_key (\<lambda>z. - score z)
          (List.map_filter visibleZone (map (normalizeZone maxRawScore) zones)))"

text \<open>The exported function. The trail data is accepted and not used.\<close>

definition computePriorityZones ::
  "position feature list \<Rightarrow> position feature list \<Rightarrow> position feature list \<Rightarrow>
   PriorityWeights \<Rightarrow> real \<Rightarrow> error + real PriorityZone list" where
  "computePriorityZones issueData waterwayData trailData weights gridSizeMeters =
     (let issues = extractIssues issueData
      in if issues = [] then Inr []
         else case scoreLoop waterwayData weights
                     (map snd (buildCellMap gridSizeMeters issues)) ([], Some 0) of
                Inl e \<Rightarrow> Inl e
              | Inr st \<Rightarrow> Inr (finishZones st))"

section \<open>Nearest waterway of each issue\<close>

text \<open>
  The memo works through the turf library, which is not part of the repository:
  \<open>turf.point\<close>, \<open>turf.pointToLineDistance\<close> and \<open>turf.lineString\<close> are parameters of
  the model. A call either throws (\<open>None\<close>) or returns. The number returned by
  \<open>pointToLineDistance\<close> is a distance in feet, NaN or Infinity (no segment was
  measured); a distance is never \<open>-Infinity\<close>. The code never looks into a position or
  into the point made by \<open>turf.point\<close>: \<open>'p\<close> is the type of the positions of the
  input and \<open>'q\<close> the type of these points.
\<close>

datatype number = NaN | Infinity | Finite real

type_synonym ('p, 'q) turfPoint = "'p \<Rightarrow> 'q option"
type_synonym ('p, 'q) pointToLineDistance = "'q \<Rightarrow> 'p list \<Rightarrow> number option"
type_synonym 'p lineString = "'p list \<Rightarrow> 'p list option"

text \<open>\<open>a < b\<close> on these numbers: every comparison with NaN is false.\<close>

fun lt :: "number \<Rightarrow> number \<Rightarrow> bool" where
  "lt (Finite a) (Finite b) = (a < b)"
| "lt (Finite a) Infinity = True"
| "lt _ _ = False"

text \<open>\<open>Math.min(...xs)\<close>: Infinity for no argument, NaN as soon as one argument is NaN.\<close>

fun min2 :: "number \<Rightarrow> number \<Rightarrow> number" where
  "min2 NaN _ = NaN"
| "min2 _ NaN = NaN"
| "min2 Infinity y = y"
| "min2 x Infinity = x"
| "min2 (Finite a) (Finite b) = Finite (min a b)"

definition mathMin :: "number list \<Rightarrow> number" where
  "mathMin xs = foldr min2 xs Infinity"

text \<open>\<open>coords.map((line) => ...)\<close>: every line is evaluated, and the first call that
  throws ends the evaluation of the feature.\<close>

fun lineDistances ::
  "('p, 'q) pointToLineDistance \<Rightarrow> 'p lineString \<Rightarrow> 'q \<Rightarrow> 'p list list \<Rightarrow> number list option" where
  "lineDistances pld mk pt [] = Some []"
| "lineDistances pld mk pt (line # lines) =
     (case mk line of
        None \<Rightarrow> None
      | Some ls \<Rightarrow>
          (case pld pt ls of
             None \<Rightarrow> None
           | Some d \<Rightarrow>
               (case lineDistances pld mk pt lines of
                  None \<Rightarrow> None
                | Some ds \<Rightarrow> Some (d # ds))))"

text \<open>The body of the \<open>try\<close> up to the comparison: the feature is passed over
  (\<open>continue\<close>), an exception is caught, or \<open>dist\<close> is assigned.\<close>

datatype attempt = Continue | Caught | Dist number

definition featureDist ::
  "('p, 'q) pointToLineDistance \<Rightarrow> 'p lineString \<Rightarrow> 'q \<Rightarrow> 'p feature \<Rightarrow> attempt" where
  "featureDist pld mk pt wwFeat =
     (case geometry wwFeat of
        None \<Rightarrow> Continue
      | Some (LineString coords) \<Rightarrow>
          (case pld pt coords of None \<Rightarrow> Caught | Some d \<Rightarrow> Dist d)
      | Some (MultiLineString coords) \<Rightarrow>
          (case lineDistances pld mk pt coords of
             None \<Rightarrow> Caught
           | Some ds \<Rightarrow> Dist (mathMin ds))
      | Some _ \<Rightarrow> Continue)"

text \<open>\<open>wwFeat.properties?.name || "Unnamed waterway"\<close>\<close>

definition waterwayName :: "'p feature \<Rightarrow> string" where
  "waterwayName wwFeat = orElse (prop_name wwFeat) ''Unnamed waterway''"

text \<open>One iteration of the loop over the waterways, on \<open>(minDist, closestName)\<close>.\<close>

definition scanFeature ::
  "('p, 'q) pointToLineDistance \<Rightarrow> 'p lineString \<Rightarrow> 'q \<Rightarrow> number \<times> string \<Rightarrow> 'p feature \<Rightarrow>
   number \<times> string" where
  "scanFeature pld mk pt st wwFeat =
     (case featureDist pld mk pt wwFeat of
        Dist d \<Rightarrow>
          if lt d (fst st) then (d, waterwayName wwFeat) else st
      | _ \<Rightarrow> st)"

text \<open>The loop over the waterways for one issue point, from \<open>minDist = Infinity\<close> and
  \<open>closestName = ""\<close>.\<close>

definition nearestWaterway ::
  "('p, 'q) pointToLineDistance \<Rightarrow> 'p lineString \<Rightarrow> 'q \<Rightarrow> 'p feature list \<Rightarrow> number \<times> string" where
  "nearestWaterway pld mk pt waterways = foldl (scanFeature pld mk pt) (Infinity, []) waterways"

text \<open>The entry stored for one issue: \<open>{ name: closestName, distFt: Math.round(minDist) }\<close>
  when \<open>minDist < Infinity\<close>.\<close>

definition nearestEntry ::
  "('p, 'q) pointToLineDistance \<Rightarrow> 'p lineString \<Rightarrow> 'q \<Rightarrow> 'p feature list \<Rightarrow>
   (string \<times> int) option" where
  "nearestEntry pld mk pt waterways =
     (case nearestWaterway pld mk pt waterways of
        (Finite minDist, closestName) \<Rightarrow> Some (closestName, round minDist)
      | _ \<Rightarrow> None)"

text \<open>The body of \<open>for (const issueFeat of data.features)\<close>. \<open>turf.point\<close> is called on
  the coordinates of the issue before the \<open>try\<close>: when it throws, the exception leaves
  the memo (\<open>None\<close>) and no map is made.\<close>

definition addNearest ::
  "('p, 'q) turfPoint \<Rightarrow> ('p, 'q) pointToLineDistance \<Rightarrow> 'p lineString \<Rightarrow> 'p feature list \<Rightarrow>
   (string \<rightharpoonup> string \<times> int) \<Rightarrow> 'p feature \<Rightarrow> (string \<rightharpoonup> string \<times> int) option" where
  "addNearest point pld mk waterways m issueFeat =
     (case geometry issueFeat of
        Some (Point coordinates) \<Rightarrow>
          (case prop_id issueFeat of
             None \<Rightarrow> Some m
           | Some issueId \<Rightarrow>
               if issueId = [] then Some m
               else (case point coordinates of
                       None \<Rightarrow> None
                     | Some pt \<Rightarrow>
                         (case nearestEntry pld mk pt waterways of
                            None \<Rightarrow> Some m
                          | Some e \<Rightarrow> Some (m(issueId \<mapsto> e)))))
      | _ \<Rightarrow> Some m)"

fun scanIssues ::
  "('p, 'q) turfPoint \<Rightarrow> ('p, 'q) pointToLineDistance \<Rightarrow> 'p lineString \<Rightarrow> 'p feature list \<Rightarrow>
   (string \<rightharpoonup> string \<times> int) \<Rightarrow> 'p feature list \<Rightarrow> (string \<rightharpoonup> string \<times> int) option" where
  "scanIssues point pld mk waterways m [] = Some m"
| "scanIssues point pld mk waterways m (issueFeat # rest) =
     (case addNearest point pld mk waterways m issueFeat of
        None \<Rightarrow> None
      | Some m' \<Rightarrow> scanIssues point pld mk waterways m' rest)"

text \<open>The whole memo: without waterway data, or with no waterway feature, the map is
  empty and no issue is looked at.\<close>

definition nearestWaterwayMap ::
  "('p, 'q) turfPoint \<Rightarrow> ('p, 'q) pointToLineDistance \<Rightarrow> 'p lineString \<Rightarrow> 'p feature list \<Rightarrow>
   'p feature list option \<Rightarrow> (string \<rightharpoonup> string \<times> int) option" where
  "nearestWaterwayMap point pld mk data waterwayData =
     (case waterwayData of
        None \<Rightarrow> Some Map.empty
      | Some waterways \<Rightarrow>
          if waterways = [] then Some Map.empty
          else scanIssues point pld mk waterways Map.empty data)"

text \<open>The finite distance that the \<open>try\<close> body assigns to \<open>dist\<close> for a feature, if
  there is one. A feature is passed over exactly when there is none.\<close>

definition finiteDist ::
  "('p, 'q) pointToLineDistance \<Rightarrow> 'p lineString \<Rightarrow> 'q \<Rightarrow> 'p feature \<Rightarrow> real option" where
  "finiteDist pld mk pt wwFeat =
     (case featureDist pld mk pt wwFeat of Dist (Finite d) \<Rightarrow> Some d | _ \<Rightarrow> None)"

text \<open>What the library does on a feature that is passed over: the feature has no line
  geometry, or a call throws, or the distance is NaN, or nothing but Infinity comes
  out.\<close>

definition notMeasured ::
  "('p, 'q) pointToLineDistance \<Rightarrow> 'p lineString \<Rightarrow> 'q \<Rightarrow> 'p feature \<Rightarrow> bool" where
  "notMeasured pld mk pt wwFeat =
     (case geometry wwFeat of
        None \<Rightarrow> True
      | Some (LineString coords) \<Rightarrow>
          pld pt coords = None \<or> pld pt coords = Some NaN \<or> pld pt coords = Some Infinity
      | Some (MultiLineString coords) \<Rightarrow>
          (\<exists>line\<in>set coords.
             case mk line of
               None \<Rightarrow> True
             | Some ls \<Rightarrow> pld pt ls = None \<or> pld pt ls = Some NaN) \<or>
          (\<forall>line\<in>set coords.
             case mk line of None \<Rightarrow> False | Some ls \<Rightarrow> pld pt ls = Some Infinity)
      | Some _ \<Rightarrow> True)"

section \<open>Sample inputs\<close>

text \<open>The coordinates of the samples are doubles (dyadic fractions).\<close>

definition pointIssue :: "'p \<Rightarrow> string \<Rightarrow> string \<Rightarrow> string \<Rightarrow> 'p feature" where
  "pointIssue c i sev cat =
     \<lparr>geometry = Some (Point c), prop_id = Some i, prop_name = None,
      prop_severity = Some sev, prop_category = Some cat, prop_status = None\<rparr>"

definition waterway :: "string \<Rightarrow> 'p geometry \<Rightarrow> 'p feature" where
  "waterway n g =
     \<lparr>geometry = Some g, prop_id = None, prop_name = Some n,
      prop_severity = None, prop_category = None, prop_status = None\<rparr>"

definition issueAtOrigin :: "position feature" where
  "issueAtOrigin = pointIssue (0, 0) ''i1'' ''critical'' ''erosion''"

text \<open>Two issues about 14 m north and 27 m south of the equator, a few dozen metres east
  of the origin.\<close>

definition issueNorthEast :: "position feature" where
  "issueNorthEast = pointIssue (1 / 8192, 1 / 8192) ''i2'' ''critical'' ''erosion''"

definition issueSouthEast :: "position feature" where
  "issueSouthEast = pointIssue (3 / 8192, - 1 / 4096) ''i3'' ''critical'' ''erosion''"

text \<open>An issue whose severity string names a member that every object inherits.\<close>

definition issueOddSeverity :: "position feature" where
  "issueOddSeverity = pointIssue (0, 0) ''i5'' ''constructor'' ''erosion''"

text \<open>A creek along the equator whose first vertex is about 27 m east of the origin.\<close>

definition creekByOrigin :: "position feature" where
  "creekByOrigin = waterway ''Bear Creek'' (LineString [(1 / 4096, 0), (1 / 128, 0)])"

text \<open>One straight canal segment along the equator, from 0.005 degrees west to 0.005
  degrees east (about 1.1 km long): the origin is its midpoint, and each of the two
  vertices is about 556 m away from it.\<close>

definition straightCanal :: "position feature" where
  "straightCanal = waterway ''High Line Canal'' (LineString [(- 1 / 200, 0), (1 / 200, 0)])"

text \<open>A canal of two lines along the equator: the first one is the segment of
  \<open>straightCanal\<close>, the second one goes on to 0.01 degrees east.\<close>

definition forkedCanal :: "position feature" where
  "forkedCanal =
     waterway ''Highline Lateral''
       (MultiLineString [[(- 1 / 200, 0), (1 / 200, 0)], [(1 / 200, 0), (1 / 100, 0)]])"

text \<open>Two issue points on the equator, about \<open>0.41\<close> and \<open>0.61\<close> default grid edges east
  of the origin (the default edge is the double nearest to \<open>200 / 111320\<close> degrees), and
  a third one west of the origin.\<close>

definition issueWest :: issue where
  "issueWest = \<lparr>issue_lat = 0, issue_lng = 3 / 4096, severity = ''low'',
     category = ''erosion'', status = ''reported''\<rparr>"

definition issueEast :: issue where
  "issueEast = \<lparr>issue_lat = 0, issue_lng = 9 / 8192, severity = ''low'',
     category = ''erosion'', status = ''reported''\<rparr>"

definition issueFarWest :: issue where
  "issueFarWest = \<lparr>issue_lat = 0, issue_lng = - 1 / 4096, severity = ''low'',
     category = ''erosion'', status = ''reported''\<rparr>"

text \<open>Weights that sum to 0 without being 0.\<close>

definition skewedWeights :: PriorityWeights where
  "skewedWeights = \<lparr>issueDensity = 0, waterProximity = 0, severityFactor = 1, recurrence = - 1\<rparr>"

text \<open>Stand-ins for the library functions in the examples, on positions that are pairs
  of reals: \<open>point\<close> accepts every such position, \<open>lineString\<close> throws on fewer than two
  positions; the distance is Infinity when there is nothing to measure, NaN when the
  first vertex is the marker \<open>(999, 999)\<close>, and otherwise the sum of the coordinate
  differences to the first vertex.\<close>

definition samplePoint :: "(position, position) turfPoint" where
  "samplePoint c = Some c"

definition sampleLineString :: "position lineString" where
  "sampleLineString line = (if length line < 2 then None else Some line)"

definition sampleDistance :: "(position, position) pointToLineDistance" where
  "sampleDistance pt line =
     (if length line < 2 then Some Infinity
      else if hd line = (999, 999) then Some NaN
      else Some (Finite (\<bar>fst pt - fst (hd line)\<bar> + \<bar>snd pt - snd (hd line)\<bar>)))"

definition nearCreek :: "position feature" where
  "nearCreek = waterway ''Near Creek'' (LineString [(2 / 5, 0), (2 / 5, 1)])"

definition farCreek :: "position feature" where
  "farCreek = waterway ''Far Creek'' (MultiLineString [[(7, 0), (7, 1)], [(5, 6), (7, 8)]])"

definition brokenWaterway :: "position feature" where
  "brokenWaterway = waterway ''Broken'' (MultiLineString [[(1 / 10, 0), (0, 0)], [(0, 0)]])"

definition nanWaterway :: "position feature" where
  "nanWaterway = waterway ''Not a number'' (MultiLineString [[(1 / 10, 0), (0, 0)], [(999, 999), (0, 0)]])"

definition stubWaterway :: "position feature" where
  "stubWaterway = waterway ''Stub'' (LineString [(0, 0)])"

text \<open>Stand-ins on positions whose coordinates can be NaN or Infinity. They follow the
  way the library works through a line: \<open>point\<close> throws on a coordinate that is not a
  number; \<open>lineString\<close> throws on fewer than two positions; the distance to a line is
  the smallest distance to one of its segments (here, to the start of the segment, as
  the sum of the coordinate differences), found by a loop
  \<open>if (d < distance) distance = d\<close> from Infinity, so that a segment with a coordinate
  that is not finite, whose distance is NaN, is passed over.\<close>

type_synonym loosePosition = "number \<times> number"

definition loosePoint :: "(loosePosition, loosePosition) turfPoint" where
  "loosePoint c = (if fst c = NaN \<or> snd c = NaN then None else Some c)"

definition looseLineString :: "loosePosition lineString" where
  "looseLineString line = (if length line < 2 then None else Some line)"

fun segmentDistance :: "loosePosition \<Rightarrow> loosePosition \<times> loosePosition \<Rightarrow> number" where
  "segmentDistance (Finite x, Finite y) ((Finite ax, Finite ay), (Finite bx, Finite by)) =
     Finite (\<bar>x - ax\<bar> + \<bar>y - ay\<bar>)"
| "segmentDistance _ _ = NaN"

definition looseDistance :: "(loosePosition, loosePosition) pointToLineDistance" where
  "looseDistance pt line =
     Some (foldl (\<lambda>distance segment.
                    if lt (segmentDistance pt segment) distance
                    then segmentDistance pt segment else distance)
             Infinity (zip line (tl line)))"

text \<open>A channel whose last position has an infinite coordinate, a creek, an issue at the
  origin and an issue whose coordinates are not numbers.\<close>

definition floodChannel :: "loosePosition feature" where
  "floodChannel =
     waterway ''Flood Channel''
       (LineString [(Finite (2 / 5), Finite 0), (Finite (2 / 5), Finite 1), (Infinity, Finite 1)])"

definition distantCreek :: "loosePosition feature" where
  "distantCreek = waterway ''Distant Creek'' (LineString [(Finite 7, Finite 0), (Finite 7, Finite 1)])"

definition issueHere :: "loosePosition feature" where
  "issueHere = pointIssue (Finite 0, Finite 0) ''i1'' ''critical'' ''erosion''"

definition issueNowhere :: "loosePosition feature" where
  "issueNowhere = pointIssue (NaN, NaN) ''i0'' ''low'' ''erosion''"

text \<open>An issue in a cell of its own, about 870 m north of the origin.\<close>

definition issueNorth :: "position feature" where
  "issueNorth = pointIssue (0, 1 / 128) ''i4'' ''low'' ''graffiti''"

text \<open>Weights outside \<open>[0, 1]\<close>.\<close>

definition wideWeights :: PriorityWeights where
  "wideWeights = \<lparr>issueDensity = 2, waterProximity = - 3, severityFactor = 4, recurrence = 0\<rparr>"

definition zeroWeights :: PriorityWeights where
  "zeroWeights = \<lparr>issueDensity = 0, waterProximity = 0, severityFactor = 0, recurrence = 0\<rparr>"

section \<open>Auxiliary facts\<close>

subsection \<open>Rounding to double precision\<close>

lemma double_0: "double 0 = 0"
  by (simp add: double_def)

lemma roundTiesToEven_error: "\<bar>of_int (roundTiesToEven y) - y\<bar> \<le> 1 / 2"
  unfolding roundTiesToEven_def Let_def by (auto simp: abs_if) linarith+

lemma roundTiesToEven_of_int: "roundTiesToEven (of_int n) = n"
  by (simp add: roundTiesToEven_def)

lemma double_error: "\<bar>double x - x\<bar> \<le> \<bar>x\<bar> / 2 ^ 53"
proof (cases "x = 0")
  case True
  then show ?thesis by (simp add: double_0)
next
  case False
  define e where "e = \<lfloor>log 2 \<bar>x\<bar>\<rfloor>"
  define ulp :: real where "ulp = 2 powr (of_int e - 52)"
  have ulp_pos: "0 < ulp" by (simp add: ulp_def)
  have d: "double x = of_int (roundTiesToEven (x / ulp)) * ulp"
    using False by (simp add: double_def Let_def ulp_def e_def)
  have "\<bar>double x - x\<bar> = \<bar>of_int (roundTiesToEven (x / ulp)) - x / ulp\<bar> * ulp"
  proof -
    have "double x - x = (of_int (roundTiesToEven (x / ulp)) - x / ulp) * ulp"
      using ulp_pos by (simp add: d field_simps)
    then show ?thesis using ulp_pos by (simp add: abs_mult)
  qed
  also have "\<dots> \<le> (1 / 2) * ulp"
    using roundTiesToEven_error[of "x / ulp"] ulp_pos by (intro mult_right_mono) simp_all
  also have "\<dots> \<le> \<bar>x\<bar> / 2 ^ 53"
  proof -
    have "of_int e \<le> log 2 \<bar>x\<bar>" by (simp add: e_def)
    then have "2 powr (of_int e) \<le> 2 powr (log 2 \<bar>x\<bar>)" by simp
    also have "\<dots> = \<bar>x\<bar>" using False by simp
    finally have le: "2 powr (of_int e) \<le> \<bar>x\<bar>" .
    have "ulp = 2 powr (of_int e) / 2 ^ 52"
      by (simp add: ulp_def powr_diff powr_realpow[symmetric])
    with le show ?thesis by simp
  qed
  finally show ?thesis .
qed

lemma double_pos: 
  assumes "0 < x" shows "0 < double x"
proof -
  have "x / 2 ^ 53 < x" using assms by (simp add: field_simps)
  with double_error[of x] assms show ?thesis by (simp add: abs_if split: if_splits)
qed

lemma double_binade:
  assumes "p = 2 powr (of_int e - 52)" "2 ^ 52 * p \<le> \<bar>x\<bar>" "\<bar>x\<bar> < 2 ^ 53 * p"
  shows "double x = of_int (roundTiesToEven (x / p)) * p"
proof -
  have ppos: "0 < p" using assms(1) by simp
  have x0: "x \<noteq> 0" using assms(2) ppos by (auto simp: not_le) 
  have p2: "2 ^ 52 * p = 2 powr (of_int e)"
    by (simp add: assms(1) powr_diff powr_realpow[symmetric])
  have "\<lfloor>log 2 \<bar>x\<bar>\<rfloor> = e"
  proof (rule floor_unique)
    have "2 powr (of_int e) \<le> \<bar>x\<bar>" using assms(2) p2 by simp
    then show "of_int e \<le> log 2 \<bar>x\<bar>" using x0 by (simp add: le_log_iff)
    have "\<bar>x\<bar> < 2 powr (of_int e + 1)" using assms(3) p2 by (simp add: powr_add)
    then show "log 2 \<bar>x\<bar> < of_int e + 1" using x0 by (simp add: log_less_iff)
  qed
  then show ?thesis using x0 by (simp add: double_def Let_def assms(1))
qed

lemma gridDeg_200: "gridDegOf 200 = 4142729085903151 / 2305843009213693952"
proof -
  have p: "(1 / 2 ^ 62 :: real) = 2 powr (of_int (- 10) - 52)"
    by (simp add: powr_minus_divide powr_realpow[symmetric] )
  have "double (200 / 111320) = of_int (roundTiesToEven ((200 / 111320) / (1 / 2 ^ 62))) * (1 / 2 ^ 62)"
    by (rule double_binade[OF p]) simp_all
  also have "roundTiesToEven ((200 / 111320) / (1 / 2 ^ 62)) = 8285458171806302"
    by (simp add: roundTiesToEven_def Let_def)
  finally show ?thesis by (simp add: gridDegOf_def)
qed

lemma round_double:
  assumes "real_of_int k - 1 / 2 \<le> q - \<bar>q\<bar> / 2 ^ 53" and "q + \<bar>q\<bar> / 2 ^ 53 < real_of_int k + 1 / 2"
  shows "round (double q) = k"
proof -
  define b where "b = \<bar>q\<bar> / 2 ^ 53"
  from double_error[of q] have "\<bar>double q - q\<bar> \<le> b" by (simp add: b_def)
  then have "q - b \<le> double q" "double q \<le> q + b" by linarith+
  then have "q - \<bar>q\<bar> / 2 ^ 53 \<le> double q" "double q \<le> q + \<bar>q\<bar> / 2 ^ 53"
    by (simp_all only: b_def)
  with assms have "real_of_int k \<le> double q + 1 / 2" "double q + 1 / 2 < real_of_int k + 1"
    by linarith+
  then show ?thesis unfolding round_def by (intro floor_unique) simp_all
qed

lemma cellCentre_margin:
  assumes "0 < d"
    and "(real_of_int k - 1 / 2) * d \<le> x - \<bar>x\<bar> / 2 ^ 53"
    and "x + \<bar>x\<bar> / 2 ^ 53 < (real_of_int k + 1 / 2) * d"
  shows "cellCentre d x = double (real_of_int k * d)"
proof -
  have a: "\<bar>x / d\<bar> / 2 ^ 53 = (\<bar>x\<bar> / 2 ^ 53) / d" using assms(1) by (simp add: abs_divide)
  have "real_of_int k - 1 / 2 \<le> (x - \<bar>x\<bar> / 2 ^ 53) / d"
    using assms(1,2) by (simp add: pos_le_divide_eq)
  then have 1: "real_of_int k - 1 / 2 \<le> x / d - \<bar>x / d\<bar> / 2 ^ 53"
    unfolding a by (simp add: diff_divide_distrib)
  have "(x + \<bar>x\<bar> / 2 ^ 53) / d < real_of_int k + 1 / 2"
    using assms(1,3) by (simp add: pos_divide_less_eq)
  then have 2: "x / d + \<bar>x / d\<bar> / 2 ^ 53 < real_of_int k + 1 / 2"
    unfolding a by (simp add: add_divide_distrib)
  from round_double[OF 1 2] show ?thesis by (simp add: cellCentre_def)
qed

lemma cellCentre_0: "cellCentre d 0 = 0"
  by (simp add: cellCentre_def double_0)

lemma cellCentre_200_0:
  assumes "- (1 / 1250) \<le> x" "x \<le> 1 / 1250"
  shows "cellCentre (gridDegOf 200) x = 0"
proof -
  have "cellCentre (gridDegOf 200) x = double (real_of_int 0 * gridDegOf 200)"
    using assms by (intro cellCentre_margin) (simp_all add: gridDeg_200 abs_if)
  then show ?thesis by (simp add: double_0)
qed

subsection \<open>The scoring loop and the normaliser\<close>

lemma score_rawZone: "score (rawZone w b c) = rawScore w b c"
  by (simp add: rawZone_def)

lemma score_normalizeZone:
  "score (normalizeZone m z) = (if greater m 0 then quotient (score z) m else Some 0)"
  by (simp add: normalizeZone_def)

lemma visibleZone_Some:
  "visibleZone z = Some z' \<Longrightarrow> score z = Some (score z') \<and> 1 / 10 < score z'"
  by (auto simp: visibleZone_def split: option.splits if_splits)

lemma visibleZone_score:
  "score z = Some s \<Longrightarrow> 1 / 10 < s \<Longrightarrow> \<exists>z'. visibleZone z = Some z' \<and> score z' = s"
  by (simp add: visibleZone_def)

lemma set_map_filter: "set (List.map_filter f xs) = {y. \<exists>x\<in>set xs. f x = Some y}"
  by (induction xs) (auto split: option.splits)

lemma set_finishZones:
  "set (finishZones (zs, m)) = {z'. \<exists>z\<in>set zs. visibleZone (normalizeZone m z) = Some z'}"
  by (auto simp: finishZones_def set_map_filter)

text \<open>Without a positive maximum no zone passes the filter.\<close>

lemma finishZones_no_max:
  assumes "\<not> greater m 0"
  shows "finishZones (zs, m) = []"
proof -
  have "set (finishZones (zs, m)) = {}"
    using assms by (auto simp: set_finishZones score_normalizeZone dest!: visibleZone_Some)
  then show ?thesis by simp
qed

text \<open>The loop keeps \<open>maxRawScore\<close> at the maximum of 0 and the raw scores pushed so far,
  unless one of them is NaN, and then \<open>maxRawScore\<close> is NaN.\<close>

lemma scoreLoop_inv:
  "scoreLoop ww w cs (zs, m) = Inr (zs', m') \<Longrightarrow>
   (m = None \<or> (\<exists>v. m = Some v \<and> 0 \<le> v \<and> (\<forall>z\<in>set zs. \<exists>r. score z = Some r \<and> r \<le> v) \<and>
       (0 < v \<longrightarrow> (\<exists>z\<in>set zs. score z = Some v)))) \<Longrightarrow>
   (m' = None \<or> (\<exists>v. m' = Some v \<and> 0 \<le> v \<and> (\<forall>z\<in>set zs'. \<exists>r. score z = Some r \<and> r \<le> v) \<and>
       (0 < v \<longrightarrow> (\<exists>z\<in>set zs'. score z = Some v))))"
proof (induction cs arbitrary: zs m)
  case Nil
  then show ?case by simp
next
  case (Cons c cs)
  show ?case
  proof (cases "cell_issues c = []")
    case True
    with Cons.prems have "scoreLoop ww w cs (zs, m) = Inr (zs', m')" by simp
    from Cons.IH[OF this Cons.prems(2)] show ?thesis .
  next
    case False
    with Cons.prems(1) obtain b where
      rest: "scoreLoop ww w cs (zs @ [rawZone w b c], mathMax m (rawScore w b c)) = Inr (zs', m')"
      by (auto split: sum.splits)
    let ?r = "rawScore w b c"
    have "mathMax m ?r = None \<or>
       (\<exists>v. mathMax m ?r = Some v \<and> 0 \<le> v \<and>
          (\<forall>z\<in>set (zs @ [rawZone w b c]). \<exists>r. score z = Some r \<and> r \<le> v) \<and>
          (0 < v \<longrightarrow> (\<exists>z\<in>set (zs @ [rawZone w b c]). score z = Some v)))"
    proof (cases "mathMax m ?r")
      case None
      then show ?thesis by simp
    next
      case (Some v)
      then obtain v0 r0 where v0: "m = Some v0" "?r = Some r0" "v = max v0 r0"
        by (auto simp: mathMax_def split: option.splits)
      with Cons.prems(2) have p: "0 \<le> v0" "\<forall>z\<in>set zs. \<exists>r. score z = Some r \<and> r \<le> v0"
        "0 < v0 \<longrightarrow> (\<exists>z\<in>set zs. score z = Some v0)" by auto
      have 1: "\<forall>z\<in>set (zs @ [rawZone w b c]). \<exists>r. score z = Some r \<and> r \<le> v"
      proof
        fix z assume "z \<in> set (zs @ [rawZone w b c])"
        then consider "z \<in> set zs" | "z = rawZone w b c" by auto
        then show "\<exists>r. score z = Some r \<and> r \<le> v"
        proof cases
          case 1
          with p(2) obtain r where "score z = Some r" "r \<le> v0" by blast
          then show ?thesis using v0(3) by auto
        next
          case 2
          then show ?thesis using v0 by (simp add: score_rawZone)
        qed
      qed
      have 2: "0 \<le> v" using p(1) v0(3) by simp
      have 3: "0 < v \<longrightarrow> (\<exists>z\<in>set (zs @ [rawZone w b c]). score z = Some v)"
      proof
        assume pos: "0 < v"
        show "\<exists>z\<in>set (zs @ [rawZone w b c]). score z = Some v"
        proof (cases "v0 \<le> r0")
          case True
          then have "score (rawZone w b c) = Some v" using v0 by (simp add: score_rawZone max_def)
          then show ?thesis by auto
        next
          case False
          then have "v = v0" using v0(3) by (simp add: max_def)
          with pos p(3) show ?thesis by auto
        qed
      qed
      from Some 1 2 3 show ?thesis by blast
    qed
    from Cons.IH[OF rest this] show ?thesis .
  qed
qed

lemma finishZones_bounds:
  assumes "\<forall>z\<in>set zs. \<exists>r. score z = Some r \<and> r \<le> v" and "z \<in> set (finishZones (zs, Some v))"
  shows "1 / 10 < score z \<and> score z \<le> 1"
proof -
  from assms(2) obtain z0 where z0: "z0 \<in> set zs" "visibleZone (normalizeZone (Some v) z0) = Some z"
    by (auto simp: set_finishZones)
  from visibleZone_Some[OF z0(2)] have s: "score (normalizeZone (Some v) z0) = Some (score z)"
    "1 / 10 < score z" by simp_all
  from assms(1) z0(1) obtain r where r: "score z0 = Some r" "r \<le> v" by blast
  show ?thesis
  proof (cases "0 < v")
    case True
    with s(1) r have "score z = r / v" by (simp add: score_normalizeZone greater_def quotient_def)
    with True r(2) s(2) show ?thesis by simp
  next
    case False
    with s show ?thesis by (simp add: score_normalizeZone greater_def)
  qed
qed

lemma hd_sort_key_le:
  assumes "x \<in> set xs"
  shows "f (hd (sort_key f xs)) \<le> f x"
proof -
  let ?ys = "sort_key f xs"
  have "?ys \<noteq> []" using assms by (metis empty_iff list.set(1) set_sort)
  then obtain y ys where ys: "?ys = y # ys" by (cases ?ys) auto
  have "sorted (map f ?ys)" by (rule sorted_sort_key)
  moreover have "x \<in> set ?ys" using assms by simp
  ultimately show ?thesis unfolding ys by auto
qed

lemma finishZones_top:
  assumes le: "\<forall>z\<in>set zs. \<exists>r. score z = Some r \<and> r \<le> v"
    and att: "0 < v \<longrightarrow> (\<exists>z\<in>set zs. score z = Some v)"
    and ne: "finishZones (zs, Some v) \<noteq> []"
  shows "score (hd (finishZones (zs, Some v))) = 1"
proof -
  let ?xs = "List.map_filter visibleZone (map (normalizeZone (Some v)) zs)"
  have fz: "finishZones (zs, Some v) = sort_key (\<lambda>z. - score z) ?xs" by (simp add: finishZones_def)
  from ne have "hd (finishZones (zs, Some v)) \<in> set (finishZones (zs, Some v))" by simp
  from finishZones_bounds[OF le this] have hi: "score (hd (finishZones (zs, Some v))) \<le> 1" by simp
  have pos: "0 < v"
  proof (rule ccontr)
    assume "\<not> 0 < v"
    then have "\<not> greater (Some v) 0" by (simp add: greater_def)
    from finishZones_no_max[OF this] ne show False by simp
  qed
  with att obtain z0 where z0: "z0 \<in> set zs" "score z0 = Some v" by blast
  with pos have "score (normalizeZone (Some v) z0) = Some 1"
    by (simp add: score_normalizeZone greater_def quotient_def)
  from visibleZone_score[OF this] obtain z' where
    z': "visibleZone (normalizeZone (Some v) z0) = Some z'" "score z' = 1" by auto
  with z0(1) have "z' \<in> set (finishZones (zs, Some v))" by (auto simp: set_finishZones)
  then have "z' \<in> set ?xs" by (simp add: fz)
  from hd_sort_key_le[OF this, of "\<lambda>z. - score z"] z'(2) fz
  have "1 \<le> score (hd (finishZones (zs, Some v)))" by simp
  with hi show ?thesis by simp
qed

lemma computePriorityZones_Inr:
  assumes "computePriorityZones issueData ww td w g = Inr zones"
  shows "zones = [] \<or>
     (\<exists>zs v. zones = finishZones (zs, Some v) \<and> (\<forall>z\<in>set zs. \<exists>r. score z = Some r \<and> r \<le> v) \<and>
            (0 < v \<longrightarrow> (\<exists>z\<in>set zs. score z = Some v)))"
proof (cases "extractIssues issueData = []")
  case True
  with assms show ?thesis by (simp add: computePriorityZones_def)
next
  case False
  with assms obtain zs m where
    loop: "scoreLoop ww w (map snd (buildCellMap g (extractIssues issueData))) ([], Some 0) = Inr (zs, m)"
    and z: "zones = finishZones (zs, m)"
    by (auto simp: computePriorityZones_def split: sum.splits)
  have "m = None \<or> (\<exists>v. m = Some v \<and> 0 \<le> v \<and> (\<forall>z\<in>set zs. \<exists>r. score z = Some r \<and> r \<le> v) \<and>
       (0 < v \<longrightarrow> (\<exists>z\<in>set zs. score z = Some v)))"
    by (rule scoreLoop_inv[OF loop]) simp
  then show ?thesis
  proof
    assume "m = None"
    then have "\<not> greater m 0" by (simp add: greater_def)
    from finishZones_no_max[OF this] z show ?thesis by simp
  next
    assume "\<exists>v. m = Some v \<and> 0 \<le> v \<and> (\<forall>z\<in>set zs. \<exists>r. score z = Some r \<and> r \<le> v) \<and>
       (0 < v \<longrightarrow> (\<exists>z\<in>set zs. score z = Some v))"
    with z show ?thesis by blast
  qed
qed

subsection \<open>Zero weights\<close>

lemma nearWaterway_total:
  "\<forall>w\<in>set ww. geometry w \<noteq> None \<Longrightarrow> \<exists>b. nearWaterway lat lng ww m = Inr b"
  by (induction ww) (auto split: option.splits geometry.splits)

lemma rawScore_zero:
  assumes "issueDensity w = 0" "waterProximity w = 0" "severityFactor w = 0" "recurrence w = 0"
  shows "rawScore w b c = (if avgSeverity c = None then None else Some 0)"
  using assms by (simp add: rawScore_def split: option.splits)

lemma foldl_addNumber_Some:
  "\<forall>i\<in>set xs. f i \<noteq> None \<Longrightarrow> \<exists>s. foldl (\<lambda>sum i. addNumber sum (f i)) (Some a) xs = Some s"
proof (induction xs arbitrary: a)
  case Nil
  then show ?case by simp
next
  case (Cons x xs)
  then obtain y where "f x = Some y" by auto
  with Cons show ?case by (simp add: addNumber_def)
qed

lemma avgSeverity_Some:
  assumes "cell_issues c \<noteq> []" and "\<forall>i\<in>set (cell_issues c). severityScore (severity i) \<noteq> None"
  shows "avgSeverity c \<noteq> None"
proof -
  from foldl_addNumber_Some[OF assms(2), of 0] obtain s where
    "foldl (\<lambda>sum i. addNumber sum (severityScore (severity i))) (Some 0) (cell_issues c) = Some s"
    by blast
  with assms(1) show ?thesis by (simp add: avgSeverity_def quotient_def)
qed

lemma scoreLoop_zero:
  assumes w: "issueDensity w = 0" "waterProximity w = 0" "severityFactor w = 0" "recurrence w = 0"
    and g: "\<forall>f\<in>set ww. geometry f \<noteq> None"
  shows "m = Some 0 \<or> m = None \<Longrightarrow> \<forall>z\<in>set zs. score z = Some 0 \<or> score z = None \<Longrightarrow>
     \<exists>zs' m'. scoreLoop ww w cs (zs, m) = Inr (zs', m') \<and> (m' = Some 0 \<or> m' = None) \<and>
        (\<forall>z\<in>set zs'. score z = Some 0 \<or> score z = None)"
proof (induction cs arbitrary: zs m)
  case Nil
  then show ?case by simp
next
  case (Cons c cs)
  show ?case
  proof (cases "cell_issues c = []")
    case True
    with Cons show ?thesis by simp
  next
    case False
    from nearWaterway_total[OF g] obtain b where
      b: "nearWaterway (cell_lat c) (cell_lng c) ww 150 = Inr b" by blast
    have 1: "mathMax m (rawScore w b c) = Some 0 \<or> mathMax m (rawScore w b c) = None"
      using Cons.prems(1) by (auto simp: rawScore_zero[OF w] mathMax_def)
    have 2: "\<forall>z\<in>set (zs @ [rawZone w b c]). score z = Some 0 \<or> score z = None"
      using Cons.prems(2) by (auto simp: score_rawZone rawScore_zero[OF w])
    from Cons.IH[OF 1 2] False b show ?thesis by simp
  qed
qed

lemma scoreLoop_zero_numbers:
  assumes w: "issueDensity w = 0" "waterProximity w = 0" "severityFactor w = 0" "recurrence w = 0"
    and g: "\<forall>f\<in>set ww. geometry f \<noteq> None"
  shows "\<forall>c\<in>set cs. \<forall>i\<in>set (cell_issues c). severityScore (severity i) \<noteq> None \<Longrightarrow>
     \<forall>z\<in>set zs. score z = Some 0 \<Longrightarrow>
     \<exists>zs'. scoreLoop ww w cs (zs, Some 0) = Inr (zs', Some 0) \<and> (\<forall>z\<in>set zs'. score z = Some 0)"
proof (induction cs arbitrary: zs)
  case Nil
  then show ?case by simp
next
  case (Cons c cs)
  show ?case
  proof (cases "cell_issues c = []")
    case True
    with Cons show ?thesis by simp
  next
    case False
    from nearWaterway_total[OF g] obtain b where
      b: "nearWaterway (cell_lat c) (cell_lng c) ww 150 = Inr b" by blast
    from Cons.prems(1) have "\<forall>i\<in>set (cell_issues c). severityScore (severity i) \<noteq> None" by simp
    from avgSeverity_Some[OF False this] have r: "rawScore w b c = Some 0"
      by (simp add: rawScore_zero[OF w])
    have 1: "\<forall>c\<in>set cs. \<forall>i\<in>set (cell_issues c). severityScore (severity i) \<noteq> None"
      using Cons.prems(1) by simp
    have 2: "\<forall>z\<in>set (zs @ [rawZone w b c]). score z = Some 0"
      using Cons.prems(2) by (auto simp: score_rawZone r)
    from Cons.IH[OF 1 2] False b show ?thesis by (simp add: r mathMax_def)
  qed
qed

text \<open>The cells hold issues of the input only.\<close>

lemma pushIssue_issues:
  "\<forall>c\<in>set (map snd m). set (cell_issues c) \<subseteq> S \<Longrightarrow> i \<in> S \<Longrightarrow>
   \<forall>c\<in>set (map snd (pushIssue key i m)). set (cell_issues c) \<subseteq> S"
proof (induction m)
  case Nil
  then show ?case by simp
next
  case (Cons p m)
  obtain k c where p: "p = (k, c)" by (cases p)
  from Cons.prems have c: "set (cell_issues c) \<subseteq> S" and
    m: "\<forall>c\<in>set (map snd m). set (cell_issues c) \<subseteq> S" by (simp_all add: p)
  show ?case
  proof (cases "k = key")
    case True
    with c m Cons.prems(2) show ?thesis by (simp add: p)
  next
    case False
    with c Cons.IH[OF m Cons.prems(2)] show ?thesis by (simp add: p)
  qed
qed

lemma addIssue_issues:
  assumes "\<forall>c\<in>set (map snd m). set (cell_issues c) \<subseteq> S" and "i \<in> S"
  shows "\<forall>c\<in>set (map snd (addIssue d m i)). set (cell_issues c) \<subseteq> S"
proof -
  let ?new = "(cellKey d i, \<lparr>cell_lat = cellCentre d (issue_lat i), cell_lng = cellCentre d (issue_lng i),
      cell_issues = []\<rparr>)"
  have "\<forall>c\<in>set (map snd (m @ [?new])). set (cell_issues c) \<subseteq> S" using assms(1) by auto
  from pushIssue_issues[OF this assms(2)] pushIssue_issues[OF assms]
  show ?thesis by (simp add: addIssue_def Let_def)
qed

lemma foldl_addIssue_issues:
  "\<forall>c\<in>set (map snd m). set (cell_issues c) \<subseteq> S \<Longrightarrow> set xs \<subseteq> S \<Longrightarrow>
   \<forall>c\<in>set (map snd (foldl (addIssue d) m xs)). set (cell_issues c) \<subseteq> S"
proof (induction xs arbitrary: m)
  case Nil
  then show ?case by simp
next
  case (Cons x xs)
  from Cons.prems(2) have "x \<in> S" "set xs \<subseteq> S" by simp_all
  from Cons.IH[OF addIssue_issues[OF Cons.prems(1) this(1)] this(2)] show ?case by simp
qed

lemma buildCellMap_issues:
  "\<forall>c\<in>set (map snd (buildCellMap g issues)). set (cell_issues c) \<subseteq> set issues"
  unfolding buildCellMap_def by (rule foldl_addIssue_issues) simp_all

subsection \<open>Distances along the equator\<close>

lemma atan2_sin_cos:
  assumes "0 \<le> t" "t \<le> pi / 2"
  shows "atan2 (sqrt ((sin t)\<^sup>2)) (sqrt (1 - (sin t)\<^sup>2)) = t"
proof -
  have s: "0 \<le> sin t" using assms pi_gt_zero by (intro sin_ge_zero) linarith+
  have c: "0 \<le> cos t" using assms by (intro cos_ge_zero) linarith+
  have "1 - (sin t)\<^sup>2 = (cos t)\<^sup>2"
    using sin_cos_squared_add[of t] by linarith
  then have eq: "atan2 (sqrt ((sin t)\<^sup>2)) (sqrt (1 - (sin t)\<^sup>2)) = atan2 (sin t) (cos t)"
    using s c by simp
  show ?thesis
  proof (cases "t = pi / 2")
    case True
    show ?thesis unfolding eq True by (simp add: atan2_def)
  next
    case False
    with assms have lt: "t < pi / 2" by simp
    have "0 < cos t" using assms lt by (intro cos_gt_zero_pi) linarith+
    then have "atan2 (sin t) (cos t) = arctan (tan t)" by (simp add: atan2_def tan_def)
    also have "\<dots> = t" using assms lt by (intro arctan_tan) linarith+
    finally show ?thesis unfolding eq .
  qed
qed

lemma haversineA_equator: "haversineA 0 l1 0 l2 = (sin (\<bar>l2 - l1\<bar> * pi / 360))\<^sup>2"
proof -
  have "(l1 - l2) * pi / 360 = - ((l2 - l1) * pi / 360)" by (simp add: field_simps)
  then have "sin ((l1 - l2) * pi / 360) = - sin ((l2 - l1) * pi / 360)"
    using sin_minus[of "(l2 - l1) * pi / 360"] by simp
  then have "(sin ((l2 - l1) * pi / 360))\<^sup>2 = (sin (\<bar>l2 - l1\<bar> * pi / 360))\<^sup>2"
    by (cases "0 \<le> l2 - l1") (simp_all add: abs_if)
  then show ?thesis by (simp add: haversineA_def)
qed

lemma central_angle_equator:
  assumes "\<bar>l2 - l1\<bar> \<le> 180"
  shows "atan2 (sqrt (haversineA 0 l1 0 l2)) (sqrt (1 - haversineA 0 l1 0 l2)) =
         \<bar>l2 - l1\<bar> * pi / 360"
proof -
  have "0 \<le> \<bar>l2 - l1\<bar> * pi / 360" by simp
  moreover have "\<bar>l2 - l1\<bar> * pi / 360 \<le> pi / 2"
  proof -
    have "\<bar>l2 - l1\<bar> * pi \<le> 180 * pi" using assms by (intro mult_right_mono) simp_all
    then show ?thesis by simp
  qed
  ultimately show ?thesis unfolding haversineA_equator by (rule atan2_sin_cos)
qed

lemma distanceMeters_equator:
  "\<bar>l2 - l1\<bar> \<le> 180 \<Longrightarrow> distanceMeters 0 l1 0 l2 = 6371000 * 2 * (\<bar>l2 - l1\<bar> * pi / 360)"
  by (simp add: distanceMeters_def Let_def central_angle_equator)

lemma haversineDistance_equator:
  "\<bar>l2 - l1\<bar> \<le> 180 \<Longrightarrow>
   haversineDistance 0 l1 0 l2 = 39588 / 10 * 2 * (\<bar>l2 - l1\<bar> * pi / 360)"
  by (simp add: haversineDistance_def Let_def central_angle_equator)

lemma canal_vertex_is_far:
  assumes "1 / 200 \<le> \<bar>l\<bar>" "\<bar>l\<bar> \<le> 180"
  shows "\<not> distanceMeters 0 0 0 l < 150"
proof -
  from assms(2) have "distanceMeters 0 0 0 l = 6371000 * 2 * (\<bar>l\<bar> * pi / 360)"
    by (simp add: distanceMeters_equator)
  moreover have "(150::real) \<le> 6371000 * 2 * ((1 / 200) * pi / 360)" using pi_ge_two by simp
  moreover have "6371000 * 2 * ((1 / 200) * pi / 360) \<le> 6371000 * 2 * (\<bar>l\<bar> * pi / 360)"
    using assms(1) pi_gt_zero by (simp add: mult_right_mono)
  ultimately show ?thesis by linarith
qed

subsection \<open>Evaluation on the sample inputs\<close>

lemma digitChar_simps:
  "digitChar 0 = CHR ''0''" "digitChar (Suc 0) = CHR ''1''" "digitChar 2 = CHR ''2''"
  "digitChar 3 = CHR ''3''" "digitChar 4 = CHR ''4''" "digitChar 5 = CHR ''5''"
  "digitChar 6 = CHR ''6''" "digitChar 7 = CHR ''7''" "digitChar 8 = CHR ''8''"
  "digitChar 9 = CHR ''9''"
  by (simp_all add: digitChar_def)

text \<open>The default grid edge and its multiples are doubles.\<close>

lemma double_gridDeg_200:
  "double (real_of_int 1 * gridDegOf 200) = gridDegOf 200"
  "double (real_of_int 4 * gridDegOf 200) = 4 * gridDegOf 200"
proof -
  have p: "(1 / 2 ^ 62 :: real) = 2 powr (of_int (- 10) - 52)"
    by (simp add: powr_minus_divide powr_realpow[symmetric])
  have "double (gridDegOf 200) =
      of_int (roundTiesToEven (gridDegOf 200 / (1 / 2 ^ 62))) * (1 / 2 ^ 62)"
    by (rule double_binade[OF p]) (simp_all add: gridDeg_200)
  also have "gridDegOf 200 / (1 / 2 ^ 62) = of_int 8285458171806302"
    by (simp add: gridDeg_200)
  finally show "double (real_of_int 1 * gridDegOf 200) = gridDegOf 200"
    unfolding roundTiesToEven_of_int by (simp add: gridDeg_200)
  have q: "(1 / 2 ^ 60 :: real) = 2 powr (of_int (- 8) - 52)"
    by (simp add: powr_minus_divide powr_realpow[symmetric])
  have "double (4 * gridDegOf 200) =
      of_int (roundTiesToEven (4 * gridDegOf 200 / (1 / 2 ^ 60))) * (1 / 2 ^ 60)"
    by (rule double_binade[OF q]) (simp_all add: gridDeg_200)
  also have "4 * gridDegOf 200 / (1 / 2 ^ 60) = of_int 8285458171806302"
    by (simp add: gridDeg_200)
  finally show "double (real_of_int 4 * gridDegOf 200) = 4 * gridDegOf 200"
    unfolding roundTiesToEven_of_int by (simp add: gridDeg_200)
qed

lemma cellCentre_200:
  "cellCentre (gridDegOf 200) (9 / 8192) = gridDegOf 200"
  "cellCentre (gridDegOf 200) (1 / 128) = 4 * gridDegOf 200"
proof -
  have "cellCentre (gridDegOf 200) (9 / 8192) = double (real_of_int 1 * gridDegOf 200)"
    by (rule cellCentre_margin) (simp_all add: gridDeg_200)
  then show "cellCentre (gridDegOf 200) (9 / 8192) = gridDegOf 200"
    by (simp only: double_gridDeg_200)
  have "cellCentre (gridDegOf 200) (1 / 128) = double (real_of_int 4 * gridDegOf 200)"
    by (rule cellCentre_margin) (simp_all add: gridDeg_200)
  then show "cellCentre (gridDegOf 200) (1 / 128) = 4 * gridDegOf 200"
    by (simp only: double_gridDeg_200)
qed

lemma toFixed5_200:
  "toFixed5 0 = ''0.00000''"
  "toFixed5 (gridDegOf 200) = ''0.00180''"
  "toFixed5 (4 * gridDegOf 200) = ''0.00719''"
  by (simp_all add: toFixed5_def Let_def digitChar_simps gridDeg_200)

lemmas score_defs =
  rawZone_def rawScore_def densityScore_def waterScore_def avgSeverity_def recurrenceScore_def
  uniqueCategories_def severityScore_def SEVERITY_SCORES_def objectPrototypeKeys_def
  addNumber_def mathMax_def quotient_def

lemmas zone_defs =
  computePriorityZones_def buildCellMap_def addIssue_def finishZones_def normalizeZone_def
  visibleZone_def labelOf_def greater_def orElse_def Let_def

lemma extract_issueAtOrigin:
  "extractIssues [issueAtOrigin] =
     [\<lparr>issue_lat = 0, issue_lng = 0, severity = ''critical'', category = ''erosion'',
       status = ''reported''\<rparr>]"
  by (simp add: issueAtOrigin_def pointIssue_def orElse_def)

lemma single_issue_zones:
  "computePriorityZones [issueAtOrigin] [] [] DEFAULT_PRIORITY_WEIGHTS 200 =
     Inr [\<lparr>zone_lat = 0, zone_lng = 0, score = 1, issueCount = 1, criticalCount = 1,
           nearWater = False, categories = [''erosion''], label = ''Critical Priority''\<rparr>]"
  unfolding computePriorityZones_def extract_issueAtOrigin
  by (simp add: zone_defs score_defs cellCentre_0 DEFAULT_PRIORITY_WEIGHTS_def)

lemma two_cell_zones:
  "computePriorityZones [issueNorth, issueAtOrigin] [] [] wideWeights 200 =
     Inr [\<lparr>zone_lat = 0, zone_lng = 0, score = 1, issueCount = 1, criticalCount = 1,
           nearWater = False, categories = [''erosion''], label = ''Critical Priority''\<rparr>,
          \<lparr>zone_lat = 4 * gridDegOf 200, zone_lng = 0, score = 1 / 5, issueCount = 1,
           criticalCount = 0, nearWater = False, categories = [''graffiti''],
           label = ''Low Priority''\<rparr>]"
proof -
  have e: "extractIssues [issueNorth, issueAtOrigin] =
     [\<lparr>issue_lat = 1 / 128, issue_lng = 0, severity = ''low'', category = ''graffiti'',
       status = ''reported''\<rparr>,
      \<lparr>issue_lat = 0, issue_lng = 0, severity = ''critical'', category = ''erosion'',
       status = ''reported''\<rparr>]"
    by (simp add: issueNorth_def issueAtOrigin_def pointIssue_def orElse_def)
  show ?thesis
    unfolding computePriorityZones_def e
    by (simp add: zone_defs score_defs cellCentre_0 cellCentre_200 toFixed5_200 cellKey_def
        wideWeights_def)
qed

text \<open>A latitude inside the interval of the multiple 8 whose quotient by the default grid
  edge rounds to the double 8.5: \<open>Math.round\<close> takes it to the multiple 9, and the key
  of the issue starts with \<open>0.01617\<close> where the multiple 8 gives \<open>0.01437\<close>.\<close>

lemma quotient_rounds_to_tie:
  "(real_of_int 8 - 1 / 2) * gridDegOf 200 \<le> 8803299307544195 / 576460752303423488"
  "8803299307544195 / 576460752303423488 < (real_of_int 8 + 1 / 2) * gridDegOf 200"
  "double (8803299307544195 / 576460752303423488 / gridDegOf 200) = 17 / 2"
  "cellCentre (gridDegOf 200) (8803299307544195 / 576460752303423488) =
     double (real_of_int 9 * gridDegOf 200)"
  "toFixed5 (double (real_of_int 9 * gridDegOf 200)) = ''0.01617''"
  "toFixed5 (double (real_of_int 8 * gridDegOf 200)) = ''0.01437''"
proof -
  let ?x = "8803299307544195 / 576460752303423488 :: real"
  show "(real_of_int 8 - 1 / 2) * gridDegOf 200 \<le> ?x" by (simp add: gridDeg_200)
  show "?x < (real_of_int 8 + 1 / 2) * gridDegOf 200" by (simp add: gridDeg_200)
  have p: "(1 / 2 ^ 49 :: real) = 2 powr (of_int 3 - 52)"
    by (simp add: powr_minus_divide powr_realpow[symmetric])
  have "double (?x / gridDegOf 200) =
      of_int (roundTiesToEven (?x / gridDegOf 200 / (1 / 2 ^ 49))) * (1 / 2 ^ 49)"
    by (rule double_binade[OF p]) (simp_all add: gridDeg_200)
  also have "roundTiesToEven (?x / gridDegOf 200 / (1 / 2 ^ 49)) = 4785074604081152"
    by (simp add: roundTiesToEven_def Let_def gridDeg_200)
  finally show q: "double (?x / gridDegOf 200) = 17 / 2" by simp
  have "round (17 / 2 :: real) = 9" by (simp add: round_def)
  then show "cellCentre (gridDegOf 200) ?x = double (real_of_int 9 * gridDegOf 200)"
    unfolding cellCentre_def q by simp
  have p9: "(1 / 2 ^ 58 :: real) = 2 powr (of_int (- 6) - 52)"
    by (simp add: powr_minus_divide powr_realpow[symmetric])
  have "double (9 * gridDegOf 200) =
      of_int (roundTiesToEven (9 * gridDegOf 200 / (1 / 2 ^ 58))) * (1 / 2 ^ 58)"
    by (rule double_binade[OF p9]) (simp_all add: gridDeg_200)
  also have "roundTiesToEven (9 * gridDegOf 200 / (1 / 2 ^ 58)) = 4660570221641045"
    by (simp add: roundTiesToEven_def Let_def gridDeg_200)
  finally have d9: "double (9 * gridDegOf 200) = 4660570221641045 / 2 ^ 58" by simp
  show "toFixed5 (double (real_of_int 9 * gridDegOf 200)) = ''0.01617''"
    by (simp add: d9 toFixed5_def Let_def digitChar_simps)
  have p8: "(1 / 2 ^ 59 :: real) = 2 powr (of_int (- 7) - 52)"
    by (simp add: powr_minus_divide powr_realpow[symmetric])
  have "double (8 * gridDegOf 200) =
      of_int (roundTiesToEven (8 * gridDegOf 200 / (1 / 2 ^ 59))) * (1 / 2 ^ 59)"
    by (rule double_binade[OF p8]) (simp_all add: gridDeg_200)
  also have "8 * gridDegOf 200 / (1 / 2 ^ 59) = of_int 8285458171806302"
    by (simp add: gridDeg_200)
  finally have d8: "double (8 * gridDegOf 200) = 8285458171806302 / 2 ^ 59"
    unfolding roundTiesToEven_of_int by simp
  show "toFixed5 (double (real_of_int 8 * gridDegOf 200)) = ''0.01437''"
    by (simp add: d8 toFixed5_def Let_def digitChar_simps)
qed

lemma canal_is_far: "nearWaterway 0 0 [straightCanal] 150 = Inr False"
proof -
  have g: "geometry straightCanal = Some (LineString [(- 1 / 200, 0), (1 / 200, 0)])"
    by (simp add: straightCanal_def waterway_def)
  have far: "\<not> distanceMeters 0 0 0 (- 1 / 200) < 150" "\<not> distanceMeters 0 0 0 (1 / 200) < 150"
    by (rule canal_vertex_is_far, simp, simp)+
  then show ?thesis by (simp add: g)
qed

lemma forked_canal_is_far: "nearWaterway 0 0 [forkedCanal] 150 = Inr False"
proof -
  have g: "geometry forkedCanal =
      Some (MultiLineString [[(- 1 / 200, 0), (1 / 200, 0)], [(1 / 200, 0), (1 / 100, 0)]])"
    by (simp add: forkedCanal_def waterway_def)
  have far: "\<not> distanceMeters 0 0 0 (- 1 / 200) < 150" "\<not> distanceMeters 0 0 0 (1 / 200) < 150"
    "\<not> distanceMeters 0 0 0 (1 / 100) < 150"
    by (rule canal_vertex_is_far, simp, simp)+
  then show ?thesis by (simp add: g)
qed

subsection \<open>The scan over the waterways\<close>

lemma scanFeature_skip:
  "finiteDist pld mk pt w = None \<Longrightarrow> scanFeature pld mk pt st w = st"
  by (auto simp: finiteDist_def scanFeature_def split: attempt.splits number.splits)

lemma scanFeature_finite:
  "finiteDist pld mk pt w = Some d \<Longrightarrow>
   scanFeature pld mk pt st w = (if lt (Finite d) (fst st) then (Finite d, waterwayName w) else st)"
  by (auto simp: finiteDist_def scanFeature_def split: attempt.splits number.splits)

lemma scanFeature_eq:
  "scanFeature pld mk pt st w =
     (case finiteDist pld mk pt w of
        None \<Rightarrow> st
      | Some d \<Rightarrow> if lt (Finite d) (fst st) then (Finite d, waterwayName w) else st)"
  by (cases "finiteDist pld mk pt w") (simp_all add: scanFeature_skip scanFeature_finite)

lemma not_lt_trans:
  "a \<noteq> NaN \<Longrightarrow> b \<noteq> NaN \<Longrightarrow> c \<noteq> NaN \<Longrightarrow> \<not> lt a b \<Longrightarrow> \<not> lt b c \<Longrightarrow> \<not> lt a c"
  by (cases a; cases b; cases c) auto

lemma not_lt_refl: "\<not> lt a a"
  by (cases a) auto

text \<open>The running minimum never increases, is never NaN, is a lower bound of the finite
  distances seen, and is either the initial value or the distance of a feature seen.\<close>

lemma foldl_scanFeature:
  assumes "foldl (scanFeature pld mk pt) (m, n) ws = (m', n')" and "m \<noteq> NaN"
  shows "m' \<noteq> NaN \<and> \<not> lt m m' \<and>
         (\<forall>w\<in>set ws. \<forall>d. finiteDist pld mk pt w = Some d \<longrightarrow> \<not> lt (Finite d) m') \<and>
         ((m', n') = (m, n) \<or>
          (\<exists>w\<in>set ws. \<exists>d. finiteDist pld mk pt w = Some d \<and> m' = Finite d \<and> n' = waterwayName w))"
  using assms
proof (induction ws arbitrary: m n)
  case Nil
  then show ?case by (simp add: not_lt_refl)
next
  case (Cons w ws)
  show ?case
  proof (cases "finiteDist pld mk pt w")
    case None
    with Cons.prems have "foldl (scanFeature pld mk pt) (m, n) ws = (m', n')"
      by (simp add: scanFeature_skip)
    from Cons.IH[OF this Cons.prems(2)] None show ?thesis by auto
  next
    case (Some d)
    show ?thesis
    proof (cases "lt (Finite d) m")
      case True
      with Some Cons.prems
      have f: "foldl (scanFeature pld mk pt) (Finite d, waterwayName w) ws = (m', n')"
        by (simp add: scanFeature_finite)
      have ih: "m' \<noteq> NaN \<and> \<not> lt (Finite d) m' \<and>
         (\<forall>w\<in>set ws. \<forall>d. finiteDist pld mk pt w = Some d \<longrightarrow> \<not> lt (Finite d) m') \<and>
         ((m', n') = (Finite d, waterwayName w) \<or>
          (\<exists>w\<in>set ws. \<exists>d. finiteDist pld mk pt w = Some d \<and> m' = Finite d \<and> n' = waterwayName w))"
        by (rule Cons.IH[OF f]) simp
      have "\<not> lt m m'"
      proof
        assume "lt m m'"
        with True ih Cons.prems(2) show False
          by (cases m; cases m') auto
      qed
      with ih Some show ?thesis by auto
    next
      case False
      with Some Cons.prems have f: "foldl (scanFeature pld mk pt) (m, n) ws = (m', n')"
        by (simp add: scanFeature_finite)
      from Cons.IH[OF f Cons.prems(2)] have ih: "m' \<noteq> NaN \<and> \<not> lt m m' \<and>
         (\<forall>w\<in>set ws. \<forall>d. finiteDist pld mk pt w = Some d \<longrightarrow> \<not> lt (Finite d) m') \<and>
         ((m', n') = (m, n) \<or>
          (\<exists>w\<in>set ws. \<exists>d. finiteDist pld mk pt w = Some d \<and> m' = Finite d \<and> n' = waterwayName w))" .
      have "\<not> lt (Finite d) m'"
        using not_lt_trans[of "Finite d" m m'] False ih Cons.prems(2) by auto
      with ih Some show ?thesis by auto
    qed
  qed
qed

lemma nearestWaterway_cases:
  obtains (none) "nearestWaterway pld mk pt ws = (Infinity, [])"
      "\<forall>w\<in>set ws. finiteDist pld mk pt w = None"
  | (some) w d where "w \<in> set ws" "finiteDist pld mk pt w = Some d"
      "nearestWaterway pld mk pt ws = (Finite d, waterwayName w)"
      "\<forall>w'\<in>set ws. \<forall>d'. finiteDist pld mk pt w' = Some d' \<longrightarrow> d \<le> d'"
proof -
  obtain m' n' where r: "nearestWaterway pld mk pt ws = (m', n')"
    by (cases "nearestWaterway pld mk pt ws")
  then have f: "foldl (scanFeature pld mk pt) (Infinity, []) ws = (m', n')"
    by (simp add: nearestWaterway_def)
  have inv: "m' \<noteq> NaN \<and> \<not> lt Infinity m' \<and>
         (\<forall>w\<in>set ws. \<forall>d. finiteDist pld mk pt w = Some d \<longrightarrow> \<not> lt (Finite d) m') \<and>
         ((m', n') = (Infinity, []) \<or>
          (\<exists>w\<in>set ws. \<exists>d. finiteDist pld mk pt w = Some d \<and> m' = Finite d \<and> n' = waterwayName w))"
    by (rule foldl_scanFeature[OF f]) simp
  show thesis
  proof (cases "(m', n') = (Infinity, [])")
    case True
    with inv have "\<forall>w\<in>set ws. finiteDist pld mk pt w = None"
      by (metis lt.simps(2) not_Some_eq prod.inject)
    with True r show thesis by (intro none) auto
  next
    case False
    with inv obtain w d where w: "w \<in> set ws" "finiteDist pld mk pt w = Some d" "m' = Finite d"
      "n' = waterwayName w" by auto
    have "\<forall>w'\<in>set ws. \<forall>d'. finiteDist pld mk pt w' = Some d' \<longrightarrow> d \<le> d'"
    proof (intro ballI allI impI)
      fix w' d' assume "w' \<in> set ws" "finiteDist pld mk pt w' = Some d'"
      with inv have "\<not> lt (Finite d') m'" by blast
      with w(3) show "d \<le> d'" by simp
    qed
    with w r show thesis by (intro some) auto
  qed
qed

lemma nearestEntry_None_iff:
  "(nearestEntry pld mk pt ws = None) = (\<forall>w\<in>set ws. finiteDist pld mk pt w = None)"
  by (cases rule: nearestWaterway_cases[of pld mk pt ws]) (auto simp: nearestEntry_def)

lemma nearestEntry_skip:
  assumes "finiteDist pld mk pt bad = None"
  shows "nearestEntry pld mk pt (ws1 @ bad # ws2) = nearestEntry pld mk pt (ws1 @ ws2)"
  using assms by (simp add: nearestEntry_def nearestWaterway_def scanFeature_skip)

lemma addNearest_cases:
  obtains (skip) "addNearest point pld mk ws m f = Some m"
      "\<not> (\<exists>p issueId. geometry f = Some (Point p) \<and> prop_id f = Some issueId \<and> issueId \<noteq> [])"
  | (throw) p issueId where "geometry f = Some (Point p)" "prop_id f = Some issueId" "issueId \<noteq> []"
      "point p = None" "addNearest point pld mk ws m f = None"
  | (none) p issueId q where "geometry f = Some (Point p)" "prop_id f = Some issueId" "issueId \<noteq> []"
      "point p = Some q" "nearestEntry pld mk q ws = None" "addNearest point pld mk ws m f = Some m"
  | (entry) p issueId q e where "geometry f = Some (Point p)" "prop_id f = Some issueId"
      "issueId \<noteq> []" "point p = Some q" "nearestEntry pld mk q ws = Some e"
      "addNearest point pld mk ws m f = Some (m(issueId \<mapsto> e))"
proof (cases "\<exists>p issueId. geometry f = Some (Point p) \<and> prop_id f = Some issueId \<and> issueId \<noteq> []")
  case False
  then have "addNearest point pld mk ws m f = Some m"
    by (auto simp: addNearest_def split: option.splits geometry.splits)
  from skip[OF this False] show thesis .
next
  case True
  then obtain p issueId where g: "geometry f = Some (Point p)" "prop_id f = Some issueId"
    "issueId \<noteq> []" by blast
  show thesis
  proof (cases "point p")
    case None
    with g have "addNearest point pld mk ws m f = None" by (simp add: addNearest_def)
    with g None show thesis by (intro throw)
  next
    case (Some q)
    show thesis
    proof (cases "nearestEntry pld mk q ws")
      case None
      with g Some have "addNearest point pld mk ws m f = Some m" by (simp add: addNearest_def)
      with g Some None show thesis by (intro none)
    next
      case (Some e)
      with g \<open>point p = Some q\<close> have "addNearest point pld mk ws m f = Some (m(issueId \<mapsto> e))"
        by (simp add: addNearest_def)
      with g \<open>point p = Some q\<close> Some show thesis by (intro entry)
    qed
  qed
qed

text \<open>The loop over the issues returns a map unless \<open>turf.point\<close> throws.\<close>

lemma scanIssues_total:
  "\<forall>f\<in>set data. \<forall>p. geometry f = Some (Point p) \<longrightarrow> point p \<noteq> None \<Longrightarrow>
   \<exists>m'. scanIssues point pld mk ws m data = Some m'"
proof (induction data arbitrary: m)
  case Nil
  then show ?case by simp
next
  case (Cons f data)
  from Cons.prems have rest: "\<forall>f\<in>set data. \<forall>p. geometry f = Some (Point p) \<longrightarrow> point p \<noteq> None"
    by simp
  show ?case
  proof (cases rule: addNearest_cases[of point pld mk ws m f])
    case skip
    with Cons.IH[OF rest, of m] show ?thesis by simp
  next
    case (throw p issueId)
    with Cons.prems show ?thesis by simp
  next
    case (none p issueId q)
    with Cons.IH[OF rest, of m] show ?thesis by simp
  next
    case (entry p issueId q e)
    from Cons.IH[OF rest] obtain m' where
      "scanIssues point pld mk ws (m(issueId \<mapsto> e)) data = Some m'" by blast
    with entry(6) show ?thesis by (simp del: fun_upd_apply)
  qed
qed

lemma scanIssues_None:
  "scanIssues point pld mk ws m data = None \<Longrightarrow>
   \<exists>f\<in>set data. \<exists>p issueId. geometry f = Some (Point p) \<and> prop_id f = Some issueId \<and>
      issueId \<noteq> [] \<and> point p = None"
proof (induction data arbitrary: m)
  case Nil
  then show ?case by simp
next
  case (Cons f data)
  show ?case
  proof (cases rule: addNearest_cases[of point pld mk ws m f])
    case skip
    with Cons show ?thesis by simp
  next
    case (throw p issueId)
    then show ?thesis by auto
  next
    case (none p issueId q)
    with Cons show ?thesis by simp
  next
    case (entry p issueId q e)
    with Cons show ?thesis by simp
  qed
qed

lemma scanIssues_dom:
  "scanIssues point pld mk ws m data = Some m' \<Longrightarrow>
   dom m' = dom m \<union> {issueId. issueId \<noteq> [] \<and>
      (\<exists>f\<in>set data. \<exists>p q. geometry f = Some (Point p) \<and> prop_id f = Some issueId \<and>
         point p = Some q \<and> nearestEntry pld mk q ws \<noteq> None)}"
proof (induction data arbitrary: m)
  case Nil
  then show ?case by simp
next
  case (Cons f data)
  let ?new = "\<lambda>fs. {issueId. issueId \<noteq> [] \<and>
      (\<exists>f\<in>set fs. \<exists>p q. geometry f = Some (Point p) \<and> prop_id f = Some issueId \<and>
         point p = Some q \<and> nearestEntry pld mk q ws \<noteq> None)}"
  have split: "?new (f # data) = ?new [f] \<union> ?new data" by auto
  show ?case
  proof (cases rule: addNearest_cases[of point pld mk ws m f])
    case skip
    then have e: "?new [f] = {}" by auto
    from skip Cons.prems have "scanIssues point pld mk ws m data = Some m'" by simp
    from Cons.IH[OF this] have ih: "dom m' = dom m \<union> ?new data" .
    show ?thesis unfolding split ih e by simp
  next
    case (throw p issueId)
    with Cons.prems show ?thesis by simp
  next
    case (none p issueId q)
    then have e: "?new [f] = {}" by auto
    from none Cons.prems have "scanIssues point pld mk ws m data = Some m'" by simp
    from Cons.IH[OF this] have ih: "dom m' = dom m \<union> ?new data" .
    show ?thesis unfolding split ih e by simp
  next
    case (entry p issueId q e)
    then have e: "?new [f] = {issueId}" by auto
    from entry Cons.prems
    have "scanIssues point pld mk ws (m(issueId \<mapsto> e)) data = Some m'" by simp
    from Cons.IH[OF this] have ih: "dom m' = dom (m(issueId \<mapsto> e)) \<union> ?new data" .
    show ?thesis unfolding split ih e by simp
  qed
qed

text \<open>Every entry of the map is the entry computed for an issue point with that id.\<close>

lemma scanIssues_entries:
  "scanIssues point pld mk ws m data = Some m' \<Longrightarrow> m' issueId = Some e \<Longrightarrow>
   m issueId = Some e \<or>
   (\<exists>f\<in>set data. \<exists>p q. geometry f = Some (Point p) \<and> prop_id f = Some issueId \<and>
      point p = Some q \<and> nearestEntry pld mk q ws = Some e)"
proof (induction data arbitrary: m)
  case Nil
  then show ?case by simp
next
  case (Cons f data)
  show ?case
  proof (cases rule: addNearest_cases[of point pld mk ws m f])
    case skip
    with Cons.prems have "scanIssues point pld mk ws m data = Some m'" by simp
    from Cons.IH[OF this Cons.prems(2)] show ?thesis by auto
  next
    case (throw p i)
    with Cons.prems show ?thesis by simp
  next
    case (none p i q)
    with Cons.prems have "scanIssues point pld mk ws m data = Some m'" by simp
    from Cons.IH[OF this Cons.prems(2)] show ?thesis by auto
  next
    case (entry p i q e')
    with Cons.prems have "scanIssues point pld mk ws (m(i \<mapsto> e')) data = Some m'" by simp
    from Cons.IH[OF this Cons.prems(2)]
    have "(m(i \<mapsto> e')) issueId = Some e \<or>
      (\<exists>f\<in>set data. \<exists>p q. geometry f = Some (Point p) \<and> prop_id f = Some issueId \<and>
        point p = Some q \<and> nearestEntry pld mk q ws = Some e)" .
    then show ?thesis
    proof
      assume a: "(m(i \<mapsto> e')) issueId = Some e"
      show ?thesis
      proof (cases "issueId = i")
        case True
        with a have "e' = e" by simp
        with entry True show ?thesis by auto
      next
        case False
        with a show ?thesis by simp
      qed
    next
      assume "\<exists>f\<in>set data. \<exists>p q. geometry f = Some (Point p) \<and> prop_id f = Some issueId \<and>
        point p = Some q \<and> nearestEntry pld mk q ws = Some e"
      then show ?thesis by auto
    qed
  qed
qed

subsection \<open>The distance of one feature\<close>

lemma lineDistances_Some:
  "lineDistances pld mk pt lines = Some ds \<Longrightarrow>
   list_all2 (\<lambda>line x. \<exists>ls. mk line = Some ls \<and> pld pt ls = Some x) lines ds"
  by (induction lines arbitrary: ds) (auto split: option.splits)

lemma mathMin_Cons: "mathMin (x # xs) = min2 x (mathMin xs)"
  by (simp add: mathMin_def)

lemma mathMin_Finite:
  "mathMin ds = Finite d \<Longrightarrow>
   Finite d \<in> set ds \<and> (\<forall>x\<in>set ds. x = Infinity \<or> (\<exists>e. x = Finite e \<and> d \<le> e))"
proof (induction ds arbitrary: d)
  case Nil
  then show ?case by (simp add: mathMin_def)
next
  case (Cons x xs)
  show ?case
  proof (cases "mathMin xs")
    case NaN
    with Cons.prems show ?thesis by (cases x) (simp_all add: mathMin_Cons)
  next
    case Infinity
    with Cons.prems have x: "x = Finite d" by (cases x) (simp_all add: mathMin_Cons)
    have "\<forall>y\<in>set xs. y = Infinity"
      using Infinity
    proof (induction xs)
      case Nil
      then show ?case by simp
    next
      case (Cons y ys)
      then show ?case
        by (cases y; cases "mathMin ys") (simp_all add: mathMin_Cons)
    qed
    with x show ?thesis by auto
  next
    case (Finite e)
    from Cons.IH[OF Finite] have ih: "Finite e \<in> set xs"
      "\<forall>x\<in>set xs. x = Infinity \<or> (\<exists>e'. x = Finite e' \<and> e \<le> e')" by simp_all
    show ?thesis
    proof (cases x)
      case NaN
      with Cons.prems show ?thesis by (simp add: mathMin_Cons)
    next
      case Infinity
      with Cons.prems Finite have "d = e" by (simp add: mathMin_Cons)
      with ih Infinity show ?thesis by auto
    next
      case (Finite a)
      with Cons.prems \<open>mathMin xs = Finite e\<close> have d: "d = min a e" by (simp add: mathMin_Cons)
      show ?thesis
      proof (cases "a \<le> e")
        case True
        with d have "d = a" by simp
        with Finite ih True show ?thesis by fastforce
      next
        case False
        with d have "d = e" by simp
        with Finite ih False show ?thesis by fastforce
      qed
    qed
  qed
qed

lemma finiteDist_LineString:
  "geometry w = Some (LineString coords) \<Longrightarrow>
   (finiteDist pld mk pt w = Some d) = (pld pt coords = Some (Finite d))"
  by (auto simp: finiteDist_def featureDist_def split: option.splits number.splits)

lemma finiteDist_MultiLineString:
  assumes g: "geometry w = Some (MultiLineString lines)" and f: "finiteDist pld mk pt w = Some d"
  shows "(\<exists>line\<in>set lines. \<exists>ls. mk line = Some ls \<and> pld pt ls = Some (Finite d)) \<and>
         (\<forall>line\<in>set lines. \<exists>ls. mk line = Some ls \<and>
            (pld pt ls = Some Infinity \<or> (\<exists>e. pld pt ls = Some (Finite e) \<and> d \<le> e)))"
proof -
  from g f obtain ds where ds: "lineDistances pld mk pt lines = Some ds" "mathMin ds = Finite d"
    by (auto simp: finiteDist_def featureDist_def split: option.splits number.splits)
  from lineDistances_Some[OF ds(1)]
  have rel: "list_all2 (\<lambda>line x. \<exists>ls. mk line = Some ls \<and> pld pt ls = Some x) lines ds" .
  from mathMin_Finite[OF ds(2)] have m: "Finite d \<in> set ds"
    "\<forall>x\<in>set ds. x = Infinity \<or> (\<exists>e. x = Finite e \<and> d \<le> e)" by simp_all
  have 1: "\<exists>line\<in>set lines. \<exists>ls. mk line = Some ls \<and> pld pt ls = Some (Finite d)"
  proof -
    from m(1) obtain i where i: "i < length ds" "ds ! i = Finite d"
      by (auto simp: in_set_conv_nth)
    with rel have "i < length lines" "\<exists>ls. mk (lines ! i) = Some ls \<and> pld pt ls = Some (Finite d)"
      by (auto simp: list_all2_conv_all_nth)
    then show ?thesis using nth_mem by blast
  qed
  have 2: "\<forall>line\<in>set lines. \<exists>ls. mk line = Some ls \<and>
            (pld pt ls = Some Infinity \<or> (\<exists>e. pld pt ls = Some (Finite e) \<and> d \<le> e))"
  proof
    fix line assume "line \<in> set lines"
    then obtain i where i: "i < length lines" "lines ! i = line" by (auto simp: in_set_conv_nth)
    with rel obtain ls where ls: "mk line = Some ls" "pld pt ls = Some (ds ! i)"
      and len: "i < length ds"
      by (auto simp: list_all2_conv_all_nth)
    from len m(2) have "ds ! i = Infinity \<or> (\<exists>e. ds ! i = Finite e \<and> d \<le> e)" by simp
    with ls show "\<exists>ls. mk line = Some ls \<and>
            (pld pt ls = Some Infinity \<or> (\<exists>e. pld pt ls = Some (Finite e) \<and> d \<le> e))"
      by auto
  qed
  from 1 2 show ?thesis by simp
qed

lemma lineDistances_None:
  "(lineDistances pld mk pt lines = None) =
   (\<exists>line\<in>set lines. case mk line of None \<Rightarrow> True | Some ls \<Rightarrow> pld pt ls = None)"
proof (induction lines)
  case Nil
  then show ?case by simp
next
  case (Cons line lines)
  show ?case
  proof (cases "mk line")
    case None
    then show ?thesis by simp
  next
    case (Some ls)
    show ?thesis
    proof (cases "pld pt ls")
      case None
      with Some show ?thesis by simp
    next
      case d: (Some d)
      show ?thesis
      proof (cases "lineDistances pld mk pt lines")
        case None
        with Cons.IH Some d show ?thesis by simp
      next
        case ds: (Some ds)
        with Cons.IH Some d show ?thesis by simp
      qed
    qed
  qed
qed

lemma mathMin_NaN: "(mathMin ds = NaN) = (NaN \<in> set ds)"
proof (induction ds)
  case Nil
  then show ?case by (simp add: mathMin_def)
next
  case (Cons x xs)
  then show ?case by (cases x; cases "mathMin xs") (auto simp: mathMin_Cons)
qed

lemma mathMin_Infinity: "(mathMin ds = Infinity) = (\<forall>x\<in>set ds. x = Infinity)"
proof (induction ds)
  case Nil
  then show ?case by (simp add: mathMin_def)
next
  case (Cons x xs)
  then show ?case by (cases x; cases "mathMin xs") (auto simp: mathMin_Cons)
qed

text \<open>A feature gives no finite distance exactly when the library does not measure it.\<close>

lemma finiteDist_None_iff:
  "(finiteDist pld mk pt w = None) = notMeasured pld mk pt w"
proof (cases "geometry w")
  case None
  then show ?thesis by (simp add: finiteDist_def featureDist_def notMeasured_def)
next
  case (Some g)
  show ?thesis
  proof (cases g)
    case (Point p)
    with Some show ?thesis by (simp add: finiteDist_def featureDist_def notMeasured_def)
  next
    case (LineString coords)
    with Some show ?thesis
      by (auto simp: finiteDist_def featureDist_def notMeasured_def
          split: option.splits number.splits)
  next
    case (MultiLineString lines)
    show ?thesis
    proof (cases "lineDistances pld mk pt lines")
      case None
      then have "finiteDist pld mk pt w = None"
        using Some MultiLineString by (simp add: finiteDist_def featureDist_def)
      moreover from None have "\<exists>line\<in>set lines.
          case mk line of None \<Rightarrow> True | Some ls \<Rightarrow> pld pt ls = None"
        by (simp add: lineDistances_None)
      then have "notMeasured pld mk pt w"
        using Some MultiLineString by (auto simp: notMeasured_def split: option.splits)
      ultimately show ?thesis by simp
    next
      case (Some ds)
      from lineDistances_Some[OF Some]
      have rel: "list_all2 (\<lambda>line x. \<exists>ls. mk line = Some ls \<and> pld pt ls = Some x) lines ds" .
      have fd: "(finiteDist pld mk pt w = None) = (mathMin ds = NaN \<or> mathMin ds = Infinity)"
        using \<open>geometry w = Some g\<close> MultiLineString Some
        by (cases "mathMin ds") (simp_all add: finiteDist_def featureDist_def)
      have nan: "(NaN \<in> set ds) =
        (\<exists>line\<in>set lines. case mk line of None \<Rightarrow> True | Some ls \<Rightarrow> pld pt ls = None \<or> pld pt ls = Some NaN)"
      proof
        assume "NaN \<in> set ds"
        then obtain i where "i < length ds" "ds ! i = NaN" by (auto simp: in_set_conv_nth)
        with rel have "i < length lines" "\<exists>ls. mk (lines ! i) = Some ls \<and> pld pt ls = Some NaN"
          by (auto simp: list_all2_conv_all_nth)
        then have "lines ! i \<in> set lines"
          "case mk (lines ! i) of None \<Rightarrow> True | Some ls \<Rightarrow> pld pt ls = None \<or> pld pt ls = Some NaN"
          by auto
        then show "\<exists>line\<in>set lines. case mk line of None \<Rightarrow> True
           | Some ls \<Rightarrow> pld pt ls = None \<or> pld pt ls = Some NaN" by blast
      next
        assume "\<exists>line\<in>set lines. case mk line of None \<Rightarrow> True
           | Some ls \<Rightarrow> pld pt ls = None \<or> pld pt ls = Some NaN"
        then obtain line where l: "line \<in> set lines"
          "case mk line of None \<Rightarrow> True | Some ls \<Rightarrow> pld pt ls = None \<or> pld pt ls = Some NaN"
          by blast
        from l(1) obtain i where i: "i < length lines" "lines ! i = line"
          by (auto simp: in_set_conv_nth)
        with rel obtain ls where ls: "mk line = Some ls" "pld pt ls = Some (ds ! i)"
          and len: "i < length ds" by (auto simp: list_all2_conv_all_nth)
        with l(2) have "ds ! i = NaN" by simp
        with len show "NaN \<in> set ds" by (auto simp: in_set_conv_nth)
      qed
      have inf: "(\<forall>x\<in>set ds. x = Infinity) =
        (\<forall>line\<in>set lines. case mk line of None \<Rightarrow> False | Some ls \<Rightarrow> pld pt ls = Some Infinity)"
      proof
        assume a: "\<forall>x\<in>set ds. x = Infinity"
        show "\<forall>line\<in>set lines. case mk line of None \<Rightarrow> False | Some ls \<Rightarrow> pld pt ls = Some Infinity"
        proof
          fix line assume "line \<in> set lines"
          then obtain i where i: "i < length lines" "lines ! i = line"
            by (auto simp: in_set_conv_nth)
          with rel obtain ls where ls: "mk line = Some ls" "pld pt ls = Some (ds ! i)"
            and len: "i < length ds" by (auto simp: list_all2_conv_all_nth)
          from len a have "ds ! i = Infinity" by simp
          with ls show "case mk line of None \<Rightarrow> False | Some ls \<Rightarrow> pld pt ls = Some Infinity"
            by simp
        qed
      next
        assume a: "\<forall>line\<in>set lines. case mk line of None \<Rightarrow> False
           | Some ls \<Rightarrow> pld pt ls = Some Infinity"
        show "\<forall>x\<in>set ds. x = Infinity"
        proof
          fix x assume "x \<in> set ds"
          then obtain i where i: "i < length ds" "ds ! i = x" by (auto simp: in_set_conv_nth)
          with rel have il: "i < length lines" and "\<exists>ls. mk (lines ! i) = Some ls \<and> pld pt ls = Some x"
            by (auto simp: list_all2_conv_all_nth)
          then obtain ls where ls: "mk (lines ! i) = Some ls" "pld pt ls = Some x" by blast
          from il a have "case mk (lines ! i) of None \<Rightarrow> False | Some ls \<Rightarrow> pld pt ls = Some Infinity"
            by simp
          with ls show "x = Infinity" by simp
        qed
      qed
      have "notMeasured pld mk pt w = (NaN \<in> set ds \<or> (\<forall>x\<in>set ds. x = Infinity))"
        unfolding nan inf using \<open>geometry w = Some g\<close> MultiLineString
        by (simp add: notMeasured_def)
      with fd show ?thesis by (simp add: mathMin_NaN mathMin_Infinity)
    qed
  next
    case OtherGeometry
    with Some show ?thesis by (simp add: finiteDist_def featureDist_def notMeasured_def)
  qed
qed

subsection \<open>The memo on the sample inputs\<close>

lemma sample_finiteDist:
  "finiteDist sampleDistance sampleLineString (0, 0) nearCreek = Some (2 / 5)"
  "finiteDist sampleDistance sampleLineString (0, 0) farCreek = Some 7"
  "finiteDist sampleDistance sampleLineString (0, 0) brokenWaterway = None"
  "finiteDist sampleDistance sampleLineString (0, 0) nanWaterway = None"
  "finiteDist sampleDistance sampleLineString (0, 0) stubWaterway = None"
  by (simp_all add: finiteDist_def featureDist_def sampleDistance_def sampleLineString_def
      mathMin_def waterway_def nearCreek_def farCreek_def brokenWaterway_def nanWaterway_def
      stubWaterway_def)

lemma sample_notMeasured:
  "notMeasured sampleDistance sampleLineString (0, 0) brokenWaterway"
  "notMeasured sampleDistance sampleLineString (0, 0) nanWaterway"
  "notMeasured sampleDistance sampleLineString (0, 0) stubWaterway"
  "\<not> notMeasured sampleDistance sampleLineString (0, 0) nearCreek"
  using sample_finiteDist by (simp_all add: finiteDist_None_iff[symmetric])

lemma sample_names:
  "waterwayName nearCreek = ''Near Creek''" "waterwayName farCreek = ''Far Creek''"
  by (simp_all add: waterwayName_def orElse_def waterway_def nearCreek_def farCreek_def)

lemma sample_nearest:
  "nearestEntry sampleDistance sampleLineString (0, 0) [farCreek, nearCreek] =
     Some (''Near Creek'', 0)"
  "nearestEntry sampleDistance sampleLineString (0, 0) [nearCreek, farCreek] =
     Some (''Near Creek'', 0)"
  "nearestEntry sampleDistance sampleLineString (0, 0) [brokenWaterway, nearCreek] =
     Some (''Near Creek'', 0)"
  "nearestEntry sampleDistance sampleLineString (0, 0)
     [brokenWaterway, nanWaterway, stubWaterway] = None"
  by (simp_all add: nearestEntry_def nearestWaterway_def scanFeature_eq
      sample_finiteDist sample_names round_def)

lemma sample_map:
  "nearestWaterwayMap samplePoint sampleDistance sampleLineString [issueAtOrigin]
     (Some [brokenWaterway, nearCreek]) = Some [''i1'' \<mapsto> (''Near Creek'', 0)]"
  by (simp add: nearestWaterwayMap_def addNearest_def issueAtOrigin_def pointIssue_def
      samplePoint_def sample_nearest)

lemma loose_distances:
  "looseDistance (Finite 0, Finite 0)
     [(Finite (2 / 5), Finite 0), (Finite (2 / 5), Finite 1), (Infinity, Finite 1)] =
     Some (Finite (2 / 5))"
  "looseDistance (Finite 0, Finite 0) [(Finite 7, Finite 0), (Finite 7, Finite 1)] =
     Some (Finite 7)"
  by (simp_all add: looseDistance_def)

lemma loose_nearest:
  "nearestEntry looseDistance looseLineString (Finite 0, Finite 0) [distantCreek, floodChannel] =
     Some (''Flood Channel'', 0)"
  "nearestEntry looseDistance looseLineString (Finite 0, Finite 0) [distantCreek] =
     Some (''Distant Creek'', 7)"
  by (simp_all add: nearestEntry_def nearestWaterway_def scanFeature_def featureDist_def
      floodChannel_def distantCreek_def waterway_def waterwayName_def orElse_def
      loose_distances round_def)

lemma loose_map:
  "nearestWaterwayMap loosePoint looseDistance looseLineString [issueNowhere, issueHere]
     (Some [distantCreek]) = None"
  "nearestWaterwayMap loosePoint looseDistance looseLineString [issueHere]
     (Some [distantCreek]) = Some [''i1'' \<mapsto> (''Distant Creek'', 7)]"
  by (simp_all add: nearestWaterwayMap_def addNearest_def issueNowhere_def issueHere_def
      pointIssue_def loosePoint_def loose_nearest)

section \<open>Results\<close>

subsection \<open>C1: the top zone\<close>

text \<open>
  C1. Whenever \<open>computePriorityZones\<close> returns a zone list that is not empty, the first
  zone of the list (which is sorted by descending score) has the normalised score 1.
\<close>

theorem top_zone_normalized:
  assumes "computePriorityZones issueData waterwayData trailData weights gridSizeMeters = Inr zones"
    and "zones \<noteq> []"
  shows "score (hd zones) = 1"
  using computePriorityZones_Inr[OF assms(1)] assms(2) finishZones_top by blast

theorem top_zone_normalized_witness:
  "computePriorityZones [issueAtOrigin] [] [] DEFAULT_PRIORITY_WEIGHTS 200 =
     Inr [\<lparr>zone_lat = 0, zone_lng = 0, score = 1, issueCount = 1, criticalCount = 1,
           nearWater = False, categories = [''erosion''], label = ''Critical Priority''\<rparr>] \<and>
   score (hd [\<lparr>zone_lat = 0, zone_lng = 0, score = 1, issueCount = 1, criticalCount = 1,
           nearWater = False, categories = [''erosion''], label = ''Critical Priority''\<rparr>]) = (1 :: real)"
  using top_zone_normalized[OF single_issue_zones] single_issue_zones by simp

subsection \<open>C2: waterway proximity measures vertices only\<close>

text \<open>
  C2 states that \<open>waterScore\<close> is 1 exactly when the cell centre is within 150 m of some
  point of a waterway segment. The code measures the distance to the listed vertices only.
  The cell centre \<open>(0, 0)\<close> lies on the single segment of \<open>straightCanal\<close> (it is its
  midpoint, at distance 0), both vertices are about 556 m away, and \<open>nearWaterway\<close>
  answers \<open>false\<close>: the zone is reported as not near water, with \<open>waterScore\<close> 0.
\<close>

theorem waterScore_ignores_segment_interior:
  "geometry straightCanal = Some (LineString [(- 1 / 200, 0), (1 / 200, 0)]) \<and>
   nearWaterway 0 0 [straightCanal] 150 = Inr False \<and>
   waterScore False = 0 \<and>
   computePriorityZones [issueAtOrigin] [straightCanal] [] DEFAULT_PRIORITY_WEIGHTS 200 =
     Inr [\<lparr>zone_lat = 0, zone_lng = 0, score = 1, issueCount = 1, criticalCount = 1,
           nearWater = False, categories = [''erosion''], label = ''Critical Priority''\<rparr>]"
proof -
  have g: "geometry straightCanal = Some (LineString [(- 1 / 200, 0), (1 / 200, 0)])"
    by (simp add: straightCanal_def waterway_def)
  have "computePriorityZones [issueAtOrigin] [straightCanal] [] DEFAULT_PRIORITY_WEIGHTS 200 =
     Inr [\<lparr>zone_lat = 0, zone_lng = 0, score = 1, issueCount = 1, criticalCount = 1,
           nearWater = False, categories = [''erosion''], label = ''Critical Priority''\<rparr>]"
    unfolding computePriorityZones_def extract_issueAtOrigin
    by (simp add: zone_defs score_defs cellCentre_0 DEFAULT_PRIORITY_WEIGHTS_def canal_is_far
        del: nearWaterway.simps)
  with g canal_is_far show ?thesis by (simp add: waterScore_def)
qed

subsection \<open>C3: issues close to each other and the grid\<close>

text \<open>
  C3 states that two issues within one grid-edge length of each other get the same cell
  key. A cell is the set of points that round to the same grid multiple, so two points
  on either side of a cell boundary get different keys however close they are. With the
  default grid (edge \<open>gridDegOf 200\<close>, the double nearest to \<open>200 / 111320\<close> degrees)
  the issues \<open>issueWest\<close> and \<open>issueEast\<close> are a fifth of an edge apart (less than
  200 m on the great circle) and round to the multiples 0 and 1.
\<close>

theorem nearby_issues_split_counterexample:
  "issue_lat issueWest = issue_lat issueEast \<and>
   \<bar>issue_lng issueEast - issue_lng issueWest\<bar> < 200 / 111320 \<and>
   distanceMeters (issue_lat issueWest) (issue_lng issueWest)
     (issue_lat issueEast) (issue_lng issueEast) < 200 \<and>
   cellKey (gridDegOf 200) issueWest = ''0.00000,0.00000'' \<and>
   cellKey (gridDegOf 200) issueEast = ''0.00000,0.00180'' \<and>
   cellKey (gridDegOf 200) issueWest \<noteq> cellKey (gridDegOf 200) issueEast"
proof -
  have d: "distanceMeters 0 (3 / 4096) 0 (9 / 8192) = 6371000 * 2 * ((3 / 8192) * pi / 360)"
    by (simp add: distanceMeters_equator)
  have "6371000 * 2 * ((3 / 8192) * pi / 360) < (200::real)" using pi_less_4 by simp
  with d have close: "distanceMeters 0 (3 / 4096) 0 (9 / 8192) < 200" by simp
  have cw: "cellCentre (gridDegOf 200) (3 / 4096) = 0"
    by (rule cellCentre_200_0) simp_all
  have kw: "cellKey (gridDegOf 200) issueWest = ''0.00000,0.00000''"
    by (simp add: cellKey_def issueWest_def cellCentre_0 cw toFixed5_200)
  have ke: "cellKey (gridDegOf 200) issueEast = ''0.00000,0.00180''"
    by (simp add: cellKey_def issueEast_def cellCentre_0 cellCentre_200 toFixed5_200)
  have ne: "cellKey (gridDegOf 200) issueWest \<noteq> cellKey (gridDegOf 200) issueEast"
    unfolding kw ke by simp
  from close kw ke ne show ?thesis by (simp add: issueWest_def issueEast_def)
qed

text \<open>
  C3, amended. For every positive grid size, with \<open>d\<close> the double nearest to
  \<open>gridSizeMeters / 111320\<close>: two issues whose latitudes \<open>x\<close> satisfy
  \<open>(k - 1/2) d \<le> x - |x| / 2^53\<close> and \<open>x + |x| / 2^53 < (k + 1/2) d\<close> for the same
  integer \<open>k\<close>, and whose longitudes satisfy the same for an integer \<open>m\<close>, get the
  same cell key, the key of the centre \<open>(k d, m d)\<close> rounded to double precision.
  The margin \<open>|x| / 2^53\<close> is the rounding error of the quotient \<open>x / d\<close>, to which
  \<open>Math.round\<close> is applied: a coordinate closer than that to the boundary of its
  interval can be put into the neighbouring cell (\<open>quotient_rounds_to_tie\<close> above is
  such a latitude).
\<close>

theorem same_cell_same_key:
  assumes "0 < gridSizeMeters" and d: "d = gridDegOf gridSizeMeters"
    and lat1: "(real_of_int k - 1 / 2) * d \<le> issue_lat i1 - \<bar>issue_lat i1\<bar> / 2 ^ 53"
      "issue_lat i1 + \<bar>issue_lat i1\<bar> / 2 ^ 53 < (real_of_int k + 1 / 2) * d"
    and lat2: "(real_of_int k - 1 / 2) * d \<le> issue_lat i2 - \<bar>issue_lat i2\<bar> / 2 ^ 53"
      "issue_lat i2 + \<bar>issue_lat i2\<bar> / 2 ^ 53 < (real_of_int k + 1 / 2) * d"
    and lng1: "(real_of_int m - 1 / 2) * d \<le> issue_lng i1 - \<bar>issue_lng i1\<bar> / 2 ^ 53"
      "issue_lng i1 + \<bar>issue_lng i1\<bar> / 2 ^ 53 < (real_of_int m + 1 / 2) * d"
    and lng2: "(real_of_int m - 1 / 2) * d \<le> issue_lng i2 - \<bar>issue_lng i2\<bar> / 2 ^ 53"
      "issue_lng i2 + \<bar>issue_lng i2\<bar> / 2 ^ 53 < (real_of_int m + 1 / 2) * d"
  shows "cellKey d i1 = cellKey d i2 \<and>
     cellKey d i1 =
       toFixed5 (double (real_of_int k * d)) @ '','' @ toFixed5 (double (real_of_int m * d))"
proof -
  from assms(1) d have pos: "0 < d" by (simp add: gridDegOf_def double_pos)
  have "cellCentre d (issue_lat i1) = double (real_of_int k * d)"
    "cellCentre d (issue_lat i2) = double (real_of_int k * d)"
    "cellCentre d (issue_lng i1) = double (real_of_int m * d)"
    "cellCentre d (issue_lng i2) = double (real_of_int m * d)"
    by (rule cellCentre_margin[OF pos] lat1 lat2 lng1 lng2)+
  then show ?thesis by (simp add: cellKey_def)
qed

theorem same_cell_same_key_witness:
  "cellKey (gridDegOf 200) issueWest = cellKey (gridDegOf 200) issueFarWest \<and>
   cellKey (gridDegOf 200) issueWest = ''0.00000,0.00000'' \<and>
   issue_lng issueWest = 3 / 4096 \<and> issue_lng issueFarWest = - 1 / 4096"
proof -
  have "cellKey (gridDegOf 200) issueWest = cellKey (gridDegOf 200) issueFarWest \<and>
     cellKey (gridDegOf 200) issueWest =
       toFixed5 (double (real_of_int 0 * gridDegOf 200)) @ '','' @
       toFixed5 (double (real_of_int 0 * gridDegOf 200))"
    by (rule same_cell_same_key[of 200])
      (simp_all add: issueWest_def issueFarWest_def gridDeg_200)
  then have a: "cellKey (gridDegOf 200) issueWest = cellKey (gridDegOf 200) issueFarWest"
    and b: "cellKey (gridDegOf 200) issueWest =
       toFixed5 (double (real_of_int 0 * gridDegOf 200)) @ '','' @
       toFixed5 (double (real_of_int 0 * gridDegOf 200))"
    by blast+
  have b': "cellKey (gridDegOf 200) issueWest = ''0.00000,0.00000''"
    unfolding b by (simp add: double_0 toFixed5_200)
  from a b' show ?thesis by (simp add: issueWest_def issueFarWest_def)
qed

subsection \<open>C4: the two great-circle routines\<close>

text \<open>
  C4 states that \<open>distanceMeters\<close> is \<open>haversineDistance\<close> converted from miles to metres,
  that is, multiplied by 1609.344. The two routines compute the same central angle but
  scale it by radius constants, 6371000 m and 3958.8 mi, that are not conversions of each
  other: 3958.8 mi are 6371071.03 m. For one degree of longitude on the equator, from
  \<open>(0, 0)\<close> to \<open>(0, 1)\<close>, the results are \<open>6371000 \<pi> / 180\<close> m and
  \<open>3958.8 \<pi> / 180\<close> mi.
\<close>

theorem unit_conversion_counterexample:
  "distanceMeters 0 0 0 1 = 6371000 * pi / 180 \<and>
   haversineDistance 0 0 0 1 = 3958.8 * pi / 180 \<and>
   distanceMeters 0 0 0 1 \<noteq> 1609.344 * haversineDistance 0 0 0 1"
  by (simp add: distanceMeters_equator haversineDistance_equator)

text \<open>
  C4, amended. For every pair of points, \<open>distanceMeters\<close> is \<open>haversineDistance\<close>
  multiplied by the ratio of the two radius constants, \<open>6371000 / 3958.8\<close> (about
  1609.326 metres for each mile).
\<close>

theorem radius_ratio:
  "distanceMeters lat1 lng1 lat2 lng2 =
     (6371000 / 3958.8) * haversineDistance lat1 lng1 lat2 lng2"
  by (simp add: distanceMeters_def haversineDistance_def Let_def)

theorem radius_ratio_witness:
  "distanceMeters 0 0 0 1 = 6371000 * pi / 180 \<and>
   distanceMeters 0 0 0 1 = (6371000 / 3958.8) * haversineDistance 0 0 0 1"
  using radius_ratio[of 0 0 0 1] by (simp add: distanceMeters_equator)

subsection \<open>C5: waterways that cannot be measured\<close>

text \<open>
  C5 states that a waterway feature with malformed geometry (fewer than 2 points,
  coordinates that are not finite, an exception during the distance evaluation) is
  skipped and never aborts the batch, and that an issue is left out of the map exactly
  when no finite distance can be computed for it. The code does not look at the
  geometry of a waterway: it skips a feature when the library throws or returns a number
  that is not below the running minimum. With the stand-ins that go through a line
  segment by segment, the channel \<open>floodChannel\<close>, whose last position has an infinite
  coordinate, gets the finite distance of its first segment and is chosen as the nearest
  waterway, where the creek alone gives another entry. And \<open>turf.point\<close> is called on
  the coordinates of the issue outside the \<open>try\<close>: the issue \<open>issueNowhere\<close>, whose
  coordinates are not numbers, ends the computation for all issues, also for
  \<open>issueHere\<close>, for which a finite distance is computed.
\<close>

theorem malformed_waterway_counterexample:
  "geometry floodChannel =
     Some (LineString [(Finite (2 / 5), Finite 0), (Finite (2 / 5), Finite 1), (Infinity, Finite 1)]) \<and>
   nearestEntry looseDistance looseLineString (Finite 0, Finite 0) [distantCreek, floodChannel] =
     Some (''Flood Channel'', 0) \<and>
   nearestEntry looseDistance looseLineString (Finite 0, Finite 0) [distantCreek] =
     Some (''Distant Creek'', 7) \<and>
   geometry issueHere = Some (Point (Finite 0, Finite 0)) \<and>
   nearestWaterwayMap loosePoint looseDistance looseLineString [issueNowhere, issueHere]
     (Some [distantCreek]) = None"
proof -
  have g: "geometry floodChannel =
     Some (LineString [(Finite (2 / 5), Finite 0), (Finite (2 / 5), Finite 1), (Infinity, Finite 1)])"
    by (simp add: floodChannel_def waterway_def)
  have h: "geometry issueHere = Some (Point (Finite 0, Finite 0))"
    by (simp add: issueHere_def pointIssue_def)
  from g loose_nearest h loose_map(1) show ?thesis by (intro conjI)
qed

text \<open>
  C5, amended. In the nearest-waterway computation, for every issue point: a waterway
  feature that the library does not measure (\<open>notMeasured\<close>: it has no LineString or
  MultiLineString geometry, or a library call on it throws, or its distance is NaN or
  Infinity) is passed over, and the entry of the issue is the one computed without that
  feature; the issue gets no entry exactly when no waterway feature is measured. For a
  MultiLineString the distance is that of the whole feature: one line that throws or
  gives NaN makes the feature one that is not measured. When \<open>turf.point\<close> accepts the
  coordinates of every issue point, a map is returned whatever the waterway features
  are, and its keys are the non-empty ids of the issue points for which some waterway
  feature is measured.
\<close>

theorem unmeasured_waterways_skipped:
  "(notMeasured pld mk pt bad \<longrightarrow>
      nearestEntry pld mk pt (ws1 @ bad # ws2) = nearestEntry pld mk pt (ws1 @ ws2)) \<and>
   ((nearestEntry pld mk pt waterways = None) =
      (\<forall>w\<in>set waterways. notMeasured pld mk pt w)) \<and>
   ((\<forall>f\<in>set data. \<forall>p. geometry f = Some (Point p) \<longrightarrow> point p \<noteq> None) \<longrightarrow>
      (\<exists>m. nearestWaterwayMap point pld mk data (Some waterways) = Some m \<and>
         dom m = {issueId. issueId \<noteq> [] \<and>
           (\<exists>f\<in>set data. \<exists>p q. geometry f = Some (Point p) \<and> prop_id f = Some issueId \<and>
              point p = Some q \<and> (\<exists>w\<in>set waterways. \<not> notMeasured pld mk q w))}))"
proof -
  have 1: "notMeasured pld mk pt bad \<longrightarrow>
      nearestEntry pld mk pt (ws1 @ bad # ws2) = nearestEntry pld mk pt (ws1 @ ws2)"
    using nearestEntry_skip[of pld mk pt bad ws1 ws2] by (simp add: finiteDist_None_iff)
  have 2: "(nearestEntry pld mk pt waterways = None) =
      (\<forall>w\<in>set waterways. notMeasured pld mk pt w)"
    by (simp add: nearestEntry_None_iff finiteDist_None_iff)
  have 3: "(\<forall>f\<in>set data. \<forall>p. geometry f = Some (Point p) \<longrightarrow> point p \<noteq> None) \<longrightarrow>
      (\<exists>m. nearestWaterwayMap point pld mk data (Some waterways) = Some m \<and>
         dom m = {issueId. issueId \<noteq> [] \<and>
           (\<exists>f\<in>set data. \<exists>p q. geometry f = Some (Point p) \<and> prop_id f = Some issueId \<and>
              point p = Some q \<and> (\<exists>w\<in>set waterways. \<not> notMeasured pld mk q w))})"
  proof
    assume ok: "\<forall>f\<in>set data. \<forall>p. geometry f = Some (Point p) \<longrightarrow> point p \<noteq> None"
    show "\<exists>m. nearestWaterwayMap point pld mk data (Some waterways) = Some m \<and>
         dom m = {issueId. issueId \<noteq> [] \<and>
           (\<exists>f\<in>set data. \<exists>p q. geometry f = Some (Point p) \<and> prop_id f = Some issueId \<and>
              point p = Some q \<and> (\<exists>w\<in>set waterways. \<not> notMeasured pld mk q w))}"
    proof (cases "waterways = []")
      case True
      then show ?thesis by (simp add: nearestWaterwayMap_def)
    next
      case False
      from scanIssues_total[OF ok] obtain m where
        m: "scanIssues point pld mk waterways Map.empty data = Some m" by blast
      from scanIssues_dom[OF m]
      have "dom m = {issueId. issueId \<noteq> [] \<and>
           (\<exists>f\<in>set data. \<exists>p q. geometry f = Some (Point p) \<and> prop_id f = Some issueId \<and>
              point p = Some q \<and> (\<exists>w\<in>set waterways. \<not> notMeasured pld mk q w))}"
        by (simp add: nearestEntry_None_iff finiteDist_None_iff)
      with m False show ?thesis by (simp add: nearestWaterwayMap_def)
    qed
  qed
  from 1 2 3 show ?thesis by (intro conjI)
qed

theorem unmeasured_waterways_skipped_witness:
  "notMeasured sampleDistance sampleLineString (0, 0) brokenWaterway \<and>
   nearestEntry sampleDistance sampleLineString (0, 0) ([nearCreek] @ brokenWaterway # [farCreek]) =
     nearestEntry sampleDistance sampleLineString (0, 0) ([nearCreek] @ [farCreek]) \<and>
   nearestEntry sampleDistance sampleLineString (0, 0) ([nearCreek] @ [farCreek]) =
     Some (''Near Creek'', 0) \<and>
   nearestEntry sampleDistance sampleLineString (0, 0)
     [brokenWaterway, nanWaterway, stubWaterway] = None \<and>
   nearestWaterwayMap samplePoint sampleDistance sampleLineString [issueAtOrigin]
     (Some [brokenWaterway, nearCreek]) = Some [''i1'' \<mapsto> (''Near Creek'', 0)] \<and>
   dom [''i1'' \<mapsto> (''Near Creek'', 0 :: int)] = {''i1''}"
proof -
  have bad: "notMeasured sampleDistance sampleLineString (0, 0) brokenWaterway"
    by (rule sample_notMeasured)
  from unmeasured_waterways_skipped[of sampleDistance sampleLineString "(0, 0)" brokenWaterway
      "[nearCreek]" "[farCreek]"] bad
  have skip: "nearestEntry sampleDistance sampleLineString (0, 0)
       ([nearCreek] @ brokenWaterway # [farCreek]) =
     nearestEntry sampleDistance sampleLineString (0, 0) ([nearCreek] @ [farCreek])"
    by blast
  have near: "nearestEntry sampleDistance sampleLineString (0, 0) ([nearCreek] @ [farCreek]) =
     Some (''Near Creek'', 0)"
    by (simp add: sample_nearest)
  have all: "\<forall>w\<in>set [brokenWaterway, nanWaterway, stubWaterway].
      notMeasured sampleDistance sampleLineString (0, 0) w"
    by (simp add: sample_notMeasured)
  from unmeasured_waterways_skipped[of sampleDistance sampleLineString "(0, 0)" brokenWaterway
      "[nearCreek]" "[farCreek]" "[brokenWaterway, nanWaterway, stubWaterway]"] all
  have none: "nearestEntry sampleDistance sampleLineString (0, 0)
     [brokenWaterway, nanWaterway, stubWaterway] = None"
    by blast
  have d: "dom [''i1'' \<mapsto> (''Near Creek'', 0 :: int)] = {''i1''}" by simp
  from bad skip near none sample_map d show ?thesis by (intro conjI)
qed

subsection \<open>C6: the nearest waterway\<close>

text \<open>
  C6 states that the locator returns the name of the nearest waterway together with the
  minimum distance in feet. The stored distance is \<open>Math.round(minDist)\<close>, a whole number
  of feet: for a nearest waterway at 0.4 ft (and another one at 7 ft) the entry holds the
  nearer one's name and the distance 0.
\<close>

theorem nearest_distance_rounded_counterexample:
  "finiteDist sampleDistance sampleLineString (0, 0) farCreek = Some 7 \<and>
   finiteDist sampleDistance sampleLineString (0, 0) nearCreek = Some (2 / 5) \<and>
   nearestEntry sampleDistance sampleLineString (0, 0) [farCreek, nearCreek] =
     Some (''Near Creek'', 0) \<and>
   real_of_int 0 \<noteq> 2 / 5"
  by (simp add: sample_finiteDist sample_nearest)

text \<open>
  C6, amended. For every issue point and every waterway collection with at least one
  feature that gives a finite distance, the entry computed for the point holds the name of
  a feature whose distance is the minimum over all such features (\<open>Unnamed waterway\<close>
  when that feature has no name), together with that minimum rounded to the nearest whole
  number of feet. The distance of a LineString feature is its point-to-line distance; the
  distance of a MultiLineString feature is the minimum over its lines. Every entry of the
  map is the entry computed for an issue point with that id.
\<close>

theorem nearest_feature_located:
  assumes "\<exists>w\<in>set waterways. finiteDist pld mk pt w \<noteq> None"
  shows "(\<exists>w\<in>set waterways. \<exists>d. finiteDist pld mk pt w = Some d \<and>
            (\<forall>w'\<in>set waterways. \<forall>d'. finiteDist pld mk pt w' = Some d' \<longrightarrow> d \<le> d') \<and>
            nearestEntry pld mk pt waterways = Some (waterwayName w, round d)) \<and>
     (\<forall>w d coords. geometry w = Some (LineString coords) \<longrightarrow>
        (finiteDist pld mk pt w = Some d) = (pld pt coords = Some (Finite d))) \<and>
     (\<forall>w d lines. geometry w = Some (MultiLineString lines) \<longrightarrow> finiteDist pld mk pt w = Some d \<longrightarrow>
        (\<exists>line\<in>set lines. \<exists>ls. mk line = Some ls \<and> pld pt ls = Some (Finite d)) \<and>
        (\<forall>line\<in>set lines. \<exists>ls. mk line = Some ls \<and>
            (pld pt ls = Some Infinity \<or> (\<exists>e. pld pt ls = Some (Finite e) \<and> d \<le> e)))) \<and>
     (\<forall>m issueId e. nearestWaterwayMap point pld mk data (Some waterways) = Some m \<longrightarrow>
        m issueId = Some e \<longrightarrow>
        (\<exists>f\<in>set data. \<exists>p q. geometry f = Some (Point p) \<and> prop_id f = Some issueId \<and>
           point p = Some q \<and> nearestEntry pld mk q waterways = Some e))"
proof -
  have 1: "\<exists>w\<in>set waterways. \<exists>d. finiteDist pld mk pt w = Some d \<and>
            (\<forall>w'\<in>set waterways. \<forall>d'. finiteDist pld mk pt w' = Some d' \<longrightarrow> d \<le> d') \<and>
            nearestEntry pld mk pt waterways = Some (waterwayName w, round d)"
  proof (cases rule: nearestWaterway_cases[of pld mk pt waterways])
    case none
    from assms obtain w where "w \<in> set waterways" "finiteDist pld mk pt w \<noteq> None" by blast
    with none(2) show ?thesis by simp
  next
    case (some w d)
    from some(3) have "nearestEntry pld mk pt waterways = Some (waterwayName w, round d)"
      by (simp add: nearestEntry_def)
    with some show ?thesis by blast
  qed
  have 4: "\<forall>m issueId e. nearestWaterwayMap point pld mk data (Some waterways) = Some m \<longrightarrow>
        m issueId = Some e \<longrightarrow>
        (\<exists>f\<in>set data. \<exists>p q. geometry f = Some (Point p) \<and> prop_id f = Some issueId \<and>
           point p = Some q \<and> nearestEntry pld mk q waterways = Some e)"
  proof (intro allI impI)
    fix m issueId e
    assume a: "nearestWaterwayMap point pld mk data (Some waterways) = Some m"
      and b: "m issueId = Some e"
    from a b have "waterways \<noteq> []" by (auto simp: nearestWaterwayMap_def)
    with a have "scanIssues point pld mk waterways Map.empty data = Some m"
      by (simp add: nearestWaterwayMap_def)
    from scanIssues_entries[OF this b]
    show "\<exists>f\<in>set data. \<exists>p q. geometry f = Some (Point p) \<and> prop_id f = Some issueId \<and>
           point p = Some q \<and> nearestEntry pld mk q waterways = Some e" by simp
  qed
  from 1 4 finiteDist_LineString[of _ _ pld mk pt] finiteDist_MultiLineString[of _ _ pld mk pt]
  show ?thesis by blast
qed

theorem nearest_feature_located_witness:
  "finiteDist sampleDistance sampleLineString (0, 0) farCreek = Some 7 \<and>
   finiteDist sampleDistance sampleLineString (0, 0) nearCreek = Some (2 / 5) \<and>
   nearestEntry sampleDistance sampleLineString (0, 0) [farCreek, nearCreek] =
     Some (waterwayName nearCreek, round (2 / 5 :: real)) \<and>
   waterwayName nearCreek = ''Near Creek'' \<and> round (2 / 5 :: real) = 0"
proof -
  let ?fd = "finiteDist sampleDistance sampleLineString (0, 0)"
  have h: "\<exists>w\<in>set [farCreek, nearCreek]. ?fd w \<noteq> None"
    by (simp add: sample_finiteDist)
  from nearest_feature_located[OF h, of samplePoint "[]"] obtain w d where
    w: "w \<in> set [farCreek, nearCreek]" "?fd w = Some d"
      "\<forall>w'\<in>set [farCreek, nearCreek]. \<forall>d'. ?fd w' = Some d' \<longrightarrow> d \<le> d'"
      "nearestEntry sampleDistance sampleLineString (0, 0) [farCreek, nearCreek] =
         Some (waterwayName w, round d)"
    by blast
  have "nearCreek \<in> set [farCreek, nearCreek]" by simp
  with w(3) sample_finiteDist(1) have le: "d \<le> 2 / 5" by blast
  have "w = nearCreek"
  proof (rule ccontr)
    assume "w \<noteq> nearCreek"
    with w(1) have "w = farCreek" by simp
    with w(2) have "d = 7" by (simp add: sample_finiteDist)
    with le show False by simp
  qed
  with w(2) have "d = 2 / 5" by (simp add: sample_finiteDist)
  with w(4) \<open>w = nearCreek\<close> show ?thesis
    by (simp add: sample_finiteDist sample_names round_def)
qed

subsection \<open>C7: scenario A\<close>

text \<open>
  C7 states that two critical erosion issues in one grid cell with a waterway within 50 m
  and the default weights give one zone with \<open>densityScore\<close> 0.25, \<open>waterScore\<close> 1,
  severity factor 1, \<open>recurrenceScore\<close> 0.25 and raw score 0.625. The issues
  \<open>issueNorthEast\<close> and \<open>issueSouthEast\<close> lie about 14 m and 27 m from the first line
  of the canal \<open>forkedCanal\<close>, which runs through their cell centre \<open>(0, 0)\<close>. The code
  measures the vertices of the canal only (see C2), and the nearest ones are about 556 m
  away: it finds no waterway near the cell, the zone is reported with
  \<open>nearWater = false\<close>, \<open>waterScore\<close> is 0 and the raw score is 0.375. The other
  sub-scores, the normalised score 1 and the label are as the claim states them.
\<close>

theorem scenario_A_canal_through_cell:
  "extractIssues [issueNorthEast, issueSouthEast] =
     [\<lparr>issue_lat = 1 / 8192, issue_lng = 1 / 8192, severity = ''critical'',
       category = ''erosion'', status = ''reported''\<rparr>,
      \<lparr>issue_lat = - 1 / 4096, issue_lng = 3 / 8192, severity = ''critical'',
       category = ''erosion'', status = ''reported''\<rparr>] \<and>
   map snd (buildCellMap 200 (extractIssues [issueNorthEast, issueSouthEast])) =
     [\<lparr>cell_lat = 0, cell_lng = 0,
       cell_issues = extractIssues [issueNorthEast, issueSouthEast]\<rparr>] \<and>
   geometry forkedCanal =
     Some (MultiLineString [[(- 1 / 200, 0), (1 / 200, 0)], [(1 / 200, 0), (1 / 100, 0)]]) \<and>
   nearWaterway 0 0 [forkedCanal] 150 = Inr False \<and>
   densityScore \<lparr>cell_lat = 0, cell_lng = 0,
       cell_issues = extractIssues [issueNorthEast, issueSouthEast]\<rparr> = 1 / 4 \<and>
   waterScore False = 0 \<and>
   avgSeverity \<lparr>cell_lat = 0, cell_lng = 0,
       cell_issues = extractIssues [issueNorthEast, issueSouthEast]\<rparr> = Some 1 \<and>
   recurrenceScore \<lparr>cell_lat = 0, cell_lng = 0,
       cell_issues = extractIssues [issueNorthEast, issueSouthEast]\<rparr> = 1 / 4 \<and>
   rawScore DEFAULT_PRIORITY_WEIGHTS False \<lparr>cell_lat = 0, cell_lng = 0,
       cell_issues = extractIssues [issueNorthEast, issueSouthEast]\<rparr> = Some (3 / 8) \<and>
   computePriorityZones [issueNorthEast, issueSouthEast] [forkedCanal] []
       DEFAULT_PRIORITY_WEIGHTS 200 =
     Inr [\<lparr>zone_lat = 0, zone_lng = 0, score = 1, issueCount = 2, criticalCount = 2,
           nearWater = False, categories = [''erosion''], label = ''Critical Priority''\<rparr>]"
proof -
  let ?i1 = "\<lparr>issue_lat = 1 / 8192, issue_lng = 1 / 8192, severity = ''critical'',
       category = ''erosion'', status = ''reported''\<rparr>"
  let ?i2 = "\<lparr>issue_lat = - (1 / 4096), issue_lng = 3 / 8192, severity = ''critical'',
       category = ''erosion'', status = ''reported''\<rparr>"
  let ?c = "\<lparr>cell_lat = 0, cell_lng = 0, cell_issues = [?i1, ?i2]\<rparr>"
  have e: "extractIssues [issueNorthEast, issueSouthEast] = [?i1, ?i2]"
    by (simp add: issueNorthEast_def issueSouthEast_def pointIssue_def orElse_def)
  have cc: "cellCentre (gridDegOf 200) (1 / 8192) = 0" "cellCentre (gridDegOf 200) (- (1 / 4096)) = 0"
    "cellCentre (gridDegOf 200) (3 / 8192) = 0"
    by (rule cellCentre_200_0, simp, simp)+
  have cells: "map snd (buildCellMap 200 [?i1, ?i2]) = [?c]"
    by (simp add: buildCellMap_def addIssue_def Let_def cellKey_def cc)
  have g: "geometry forkedCanal =
     Some (MultiLineString [[(- 1 / 200, 0), (1 / 200, 0)], [(1 / 200, 0), (1 / 100, 0)]])"
    by (simp add: forkedCanal_def waterway_def)
  have d: "densityScore ?c = 1 / 4" by (simp add: densityScore_def)
  have s: "avgSeverity ?c = Some 1"
    by (simp add: avgSeverity_def severityScore_def SEVERITY_SCORES_def addNumber_def
        quotient_def)
  have u: "uniqueCategories ?c = [''erosion'']" by (simp add: uniqueCategories_def)
  have r: "recurrenceScore ?c = 1 / 4" unfolding recurrenceScore_def u by simp
  have raw: "rawScore DEFAULT_PRIORITY_WEIGHTS False ?c = Some (3 / 8)"
    unfolding rawScore_def d s r waterScore_def DEFAULT_PRIORITY_WEIGHTS_def by simp
  have loop: "scoreLoop [forkedCanal] DEFAULT_PRIORITY_WEIGHTS [?c] ([], Some 0) =
      Inr ([rawZone DEFAULT_PRIORITY_WEIGHTS False ?c], Some (3 / 8))"
    by (simp add: forked_canal_is_far raw mathMax_def del: nearWaterway.simps)
  have fin: "finishZones ([rawZone DEFAULT_PRIORITY_WEIGHTS False ?c], Some (3 / 8)) =
      [\<lparr>zone_lat = 0, zone_lng = 0, score = 1, issueCount = 2,
        criticalCount = 2, nearWater = False, categories = [''erosion''],
        label = ''Critical Priority''\<rparr>]"
  proof -
    have lab: "labelOf (Some (3 / 8)) (Some (3 / 8)) = ''Critical Priority''"
      by (simp add: labelOf_def quotient_def greater_def)
    have rz: "rawZone DEFAULT_PRIORITY_WEIGHTS False ?c =
      \<lparr>zone_lat = 0, zone_lng = 0, score = Some (3 / 8), issueCount = 2,
        criticalCount = 2, nearWater = False, categories = [''erosion''], label = []\<rparr>"
      unfolding rawZone_def raw u by simp
    show ?thesis
      unfolding rz
      by (simp add: finishZones_def normalizeZone_def lab visibleZone_def greater_def
          quotient_def)
  qed
  have z: "computePriorityZones [issueNorthEast, issueSouthEast] [forkedCanal] []
       DEFAULT_PRIORITY_WEIGHTS 200 =
     Inr [\<lparr>zone_lat = 0, zone_lng = 0, score = 1, issueCount = 2, criticalCount = 2,
           nearWater = False, categories = [''erosion''], label = ''Critical Priority''\<rparr>]"
    unfolding computePriorityZones_def Let_def e cells loop by (simp add: fin)
  have w: "waterScore False = 0" by (simp add: waterScore_def)
  show ?thesis unfolding e using cells g forked_canal_is_far d w s r raw z[unfolded e]
    by (intro conjI) simp_all
qed

subsection \<open>C8: degenerate weights\<close>

text \<open>
  C8 states that a weight vector that sums to 0 gives raw scores 0 and the empty zone
  list. The weights are used as given, so a sum of 0 does not make them 0: with
  \<open>severityFactor = 1\<close> and \<open>recurrence = -1\<close> a single critical issue has the raw score
  \<open>1 - 1/4\<close>, and its zone is returned.
\<close>

theorem zero_sum_weights_counterexample:
  "issueDensity skewedWeights + waterProximity skewedWeights +
     severityFactor skewedWeights + recurrence skewedWeights = 0 \<and>
   computePriorityZones [issueAtOrigin] [] [] skewedWeights 200 =
     Inr [\<lparr>zone_lat = 0, zone_lng = 0, score = 1, issueCount = 1, criticalCount = 1,
           nearWater = False, categories = [''erosion''], label = ''Critical Priority''\<rparr>]"
proof -
  have "computePriorityZones [issueAtOrigin] [] [] skewedWeights 200 =
     Inr [\<lparr>zone_lat = 0, zone_lng = 0, score = 1, issueCount = 1, criticalCount = 1,
           nearWater = False, categories = [''erosion''], label = ''Critical Priority''\<rparr>]"
    unfolding computePriorityZones_def extract_issueAtOrigin
    by (simp add: zone_defs score_defs cellCentre_0 skewedWeights_def)
  then show ?thesis by (simp add: skewedWeights_def)
qed

text \<open>
  C8, amended. When the four weights are non-negative and sum to 0 (that is, when all four
  are 0) and every waterway feature carries a geometry, then every normalised score is
  set to 0 without a division (the guard \<open>maxRawScore > 0\<close> fails) and
  \<open>computePriorityZones\<close> returns the empty list, not an error; and every raw score is
  0 and \<open>maxRawScore\<close> stays 0, provided that no issue has a severity string that names
  an inherited member of the severity table (such as \<open>constructor\<close>). With such a
  string a raw score, and with it \<open>maxRawScore\<close>, is 0 or NaN.
\<close>

theorem zero_weights_no_zones:
  assumes nonneg: "0 \<le> issueDensity weights" "0 \<le> waterProximity weights"
      "0 \<le> severityFactor weights" "0 \<le> recurrence weights"
    and sum: "issueDensity weights + waterProximity weights +
      severityFactor weights + recurrence weights = 0"
    and geo: "\<forall>f\<in>set waterwayData. geometry f \<noteq> None"
  shows "\<exists>zones maxRawScore.
     scoreLoop waterwayData weights
       (map snd (buildCellMap gridSizeMeters (extractIssues issueData))) ([], Some 0) =
       Inr (zones, maxRawScore) \<and>
     (maxRawScore = Some 0 \<or> maxRawScore = None) \<and>
     (\<forall>z\<in>set zones. (score z = Some 0 \<or> score z = None) \<and>
        score (normalizeZone maxRawScore z) = Some 0) \<and>
     ((\<forall>i\<in>set (extractIssues issueData). severityScore (severity i) \<noteq> None) \<longrightarrow>
        maxRawScore = Some 0 \<and> (\<forall>z\<in>set zones. score z = Some 0)) \<and>
     computePriorityZones issueData waterwayData trailData weights gridSizeMeters = Inr []"
proof -
  let ?cs = "map snd (buildCellMap gridSizeMeters (extractIssues issueData))"
  from nonneg sum have w: "issueDensity weights = 0" "waterProximity weights = 0"
    "severityFactor weights = 0" "recurrence weights = 0" by linarith+
  have "\<forall>z\<in>set ([]::real option PriorityZone list). score z = Some 0 \<or> score z = None" by simp
  from scoreLoop_zero[OF w geo _ this, of "Some 0" ?cs] obtain zones m where
    z: "scoreLoop waterwayData weights ?cs ([], Some 0) = Inr (zones, m)"
      "m = Some 0 \<or> m = None" "\<forall>z\<in>set zones. score z = Some 0 \<or> score z = None" by auto
  from z(2) have ng: "\<not> greater m 0" by (auto simp: greater_def)
  then have n: "\<forall>z\<in>set zones. score (normalizeZone m z) = Some 0"
    by (simp add: score_normalizeZone)
  have num: "(\<forall>i\<in>set (extractIssues issueData). severityScore (severity i) \<noteq> None) \<longrightarrow>
        m = Some 0 \<and> (\<forall>z\<in>set zones. score z = Some 0)"
  proof
    assume a: "\<forall>i\<in>set (extractIssues issueData). severityScore (severity i) \<noteq> None"
    have "\<forall>c\<in>set ?cs. \<forall>i\<in>set (cell_issues c). severityScore (severity i) \<noteq> None"
      using buildCellMap_issues[of gridSizeMeters "extractIssues issueData"] a by blast
    from scoreLoop_zero_numbers[OF w geo this, of "[]"] z(1)
    show "m = Some 0 \<and> (\<forall>z\<in>set zones. score z = Some 0)" by auto
  qed
  have "computePriorityZones issueData waterwayData trailData weights gridSizeMeters = Inr []"
    by (simp add: computePriorityZones_def Let_def z(1) finishZones_no_max[OF ng])
  moreover from z(3) n have "\<forall>z\<in>set zones. (score z = Some 0 \<or> score z = None) \<and>
        score (normalizeZone m z) = Some 0" by simp
  ultimately show ?thesis using z(1,2) num by (intro exI conjI)
qed

theorem zero_weights_no_zones_witness:
  "issueDensity zeroWeights + waterProximity zeroWeights +
     severityFactor zeroWeights + recurrence zeroWeights = 0 \<and>
   geometry creekByOrigin \<noteq> None \<and>
   computePriorityZones [issueAtOrigin] [creekByOrigin] [] zeroWeights 200 = Inr [] \<and>
   severityScore ''constructor'' = None \<and>
   extractIssues [issueOddSeverity] =
     [\<lparr>issue_lat = 0, issue_lng = 0, severity = ''constructor'', category = ''erosion'',
       status = ''reported''\<rparr>] \<and>
   rawScore zeroWeights True
     \<lparr>cell_lat = 0, cell_lng = 0, cell_issues = extractIssues [issueOddSeverity]\<rparr> = None \<and>
   computePriorityZones [issueOddSeverity] [creekByOrigin] [] zeroWeights 200 = Inr []"
proof -
  have g: "\<forall>f\<in>set [creekByOrigin]. geometry f \<noteq> None"
    by (simp add: creekByOrigin_def waterway_def)
  have w: "0 \<le> issueDensity zeroWeights" "0 \<le> waterProximity zeroWeights"
    "0 \<le> severityFactor zeroWeights" "0 \<le> recurrence zeroWeights"
    by (simp_all add: zeroWeights_def)
  have s: "issueDensity zeroWeights + waterProximity zeroWeights +
     severityFactor zeroWeights + recurrence zeroWeights = 0"
    by (simp add: zeroWeights_def)
  from zero_weights_no_zones[OF w s g]
  have a: "computePriorityZones [issueAtOrigin] [creekByOrigin] [] zeroWeights 200 = Inr []"
    by blast
  from zero_weights_no_zones[OF w s g]
  have b: "computePriorityZones [issueOddSeverity] [creekByOrigin] [] zeroWeights 200 = Inr []"
    by blast
  have c: "severityScore ''constructor'' = None"
    by (simp add: severityScore_def SEVERITY_SCORES_def objectPrototypeKeys_def)
  have e: "extractIssues [issueOddSeverity] =
     [\<lparr>issue_lat = 0, issue_lng = 0, severity = ''constructor'', category = ''erosion'',
       status = ''reported''\<rparr>]"
    by (simp add: issueOddSeverity_def pointIssue_def orElse_def)
  have r: "rawScore zeroWeights True
     \<lparr>cell_lat = 0, cell_lng = 0, cell_issues = extractIssues [issueOddSeverity]\<rparr> = None"
    unfolding e by (simp add: rawScore_def avgSeverity_def c addNumber_def quotient_def)
  have g': "geometry creekByOrigin \<noteq> None" using g by simp
  from s g' a c e r b show ?thesis by (intro conjI)
qed

subsection \<open>C9: no issues\<close>

text \<open>
  C9. For the empty issue list, every waterway collection and every weight vector,
  \<open>computePriorityZones\<close> returns the empty zone list and the nearest-waterway map is
  empty; neither signals an error.
\<close>

theorem empty_issue_list:
  "computePriorityZones [] waterwayData trailData weights gridSizeMeters = Inr [] \<and>
   nearestWaterwayMap point pld mk [] optWaterwayData = Some Map.empty"
  by (simp add: computePriorityZones_def nearestWaterwayMap_def split: option.splits)

subsection \<open>C10: the range of the normalised score\<close>

text \<open>
  C10. For every input, whatever the weights (they are used as given), every zone of the
  returned list has a normalised score in \<open>[0, 1]\<close>, and greater than 0.1.
\<close>

theorem zones_in_unit_interval:
  assumes "computePriorityZones issueData waterwayData trailData weights gridSizeMeters = Inr zones"
    and "z \<in> set zones"
  shows "0 \<le> score z \<and> score z \<le> 1 \<and> 1 / 10 < score z"
proof -
  from computePriorityZones_Inr[OF assms(1)] assms(2) obtain zs v where
    "zones = finishZones (zs, Some v)" "\<forall>z\<in>set zs. \<exists>r. score z = Some r \<and> r \<le> v" by auto
  with finishZones_bounds[of zs v z] assms(2) show ?thesis by auto
qed

theorem zones_in_unit_interval_witness:
  "computePriorityZones [issueNorth, issueAtOrigin] [] [] wideWeights 200 =
     Inr [\<lparr>zone_lat = 0, zone_lng = 0, score = 1, issueCount = 1, criticalCount = 1,
           nearWater = False, categories = [''erosion''], label = ''Critical Priority''\<rparr>,
          \<lparr>zone_lat = 4 * gridDegOf 200, zone_lng = 0, score = 1 / 5, issueCount = 1,
           criticalCount = 0, nearWater = False, categories = [''graffiti''],
           label = ''Low Priority''\<rparr>] \<and>
   (0::real) \<le> 1 / 5 \<and> (1 / 5 :: real) \<le> 1 \<and> (1 / 10 :: real) < 1 / 5"
  using zones_in_unit_interval[OF two_cell_zones,
      of "\<lparr>zone_lat = 4 * gridDegOf 200, zone_lng = 0, score = 1 / 5, issueCount = 1,
           criticalCount = 0, nearWater = False, categories = [''graffiti''],
           label = ''Low Priority''\<rparr>"]
    two_cell_zones
  by simp

end
